theory Spec2Isabelle
  imports Main "HOL-Library.Sublist" "HOL-Library.Multiset" "HOL-Library.Word"
begin

section \<open>Strings\<close>

text \<open>
  Go's \<^verbatim>\<open>strings.Index(s, sep)\<close>: the byte offset of the first occurrence of
  \<open>sep\<close> in \<open>s\<close>, or \<open>-1\<close> when there is none.
\<close>

fun strings_Index :: "string \<Rightarrow> string \<Rightarrow> int" where
  "strings_Index [] sep = (if sep = [] then 0 else -1)"
| "strings_Index (c # cs) sep =
     (if prefix sep (c # cs) then 0
      else (let i = strings_Index cs sep in if i = -1 then -1 else i + 1))"

text \<open>
  \<^verbatim>\<open>strings.LastIndex(s, sep)\<close>: the byte offset of the last occurrence of \<open>sep\<close> in
  \<open>s\<close>, or \<open>-1\<close>; \<^verbatim>\<open>strings.Contains\<close> and \<^verbatim>\<open>strings.HasPrefix\<close>.
\<close>

fun strings_LastIndex :: "string \<Rightarrow> string \<Rightarrow> int" where
  "strings_LastIndex [] sep = (if sep = [] then 0 else -1)"
| "strings_LastIndex (c # cs) sep =
     (let i = strings_LastIndex cs sep
      in if i \<noteq> -1 then i + 1 else if prefix sep (c # cs) then 0 else -1)"


definition strings_HasPrefix :: "string \<Rightarrow> string \<Rightarrow> bool" where
  "strings_HasPrefix s pre = prefix pre s"

section \<open>Remote keys (rclone/sync.go)\<close>

text \<open>
  \<^verbatim>\<open>remoteKey\<close>: a path that contains a colon is its own key, any other path is
  prefixed with \<^verbatim>\<open>local:\<close>.
\<close>

definition remoteKey :: "string \<Rightarrow> string" where
  "remoteKey path = (if strings_Index path '':'' \<noteq> -1 then path else ''local:'' @ path)"

lemma strings_Index_nonneg: "strings_Index s sep \<noteq> -1 \<Longrightarrow> 0 \<le> strings_Index s sep"
  by (induction s) (auto simp: Let_def split: if_splits)

lemma strings_Index_char: "strings_Index s [c] \<noteq> -1 \<longleftrightarrow> c \<in> set s"
proof (induction s)
  case Nil
  show ?case by simp
next
  case (Cons a s)
  have "0 \<le> strings_Index s [c]" if "strings_Index s [c] \<noteq> -1"
    using that by (rule strings_Index_nonneg)
  with Cons show ?case
    by (auto simp: Let_def)
qed

section \<open>Delta types (delta/types.go)\<close>

text \<open>
  Instants and durations are integers counting nanoseconds, as Go's \<^verbatim>\<open>time.Duration\<close>
  does. \<^verbatim>\<open>time.RFC3339\<close> has no fractional seconds, so a formatted instant reads back
  truncated to the whole second.
\<close>

type_synonym time = int

definition second :: int where
  "second = 1000000000"

definition hour :: int where
  "hour = 3600 * second"

definition rfc3339 :: "time \<Rightarrow> time" where
  "rfc3339 t = (t div second) * second"

datatype fs_EntryType = EntryDirectory | EntryObject

datatype ChangeType = ChangeModified | ChangeDeleted

record FileChange =
  Path :: string
  EntryType :: fs_EntryType
  Type :: ChangeType
  DetectedAt :: time

record ChangeSet =
  cs_RemoteKey :: string
  Changes :: "FileChange list"
  HasChanges :: bool

record DeltaState =
  RemoteKey :: string
  Provider :: string
  IsWatching :: bool
  LastFullSync :: "time option"
  DeltaCount :: int

definition MaxDeltaSyncsBeforeFullSync :: int where
  "MaxDeltaSyncsBeforeFullSync = 50"

definition MaxTimeBetweenFullSyncs :: int where
  "MaxTimeBetweenFullSyncs = 24 * hour"

definition MaxChangesBeforeFallback :: nat where
  "MaxChangesBeforeFallback = 5000"

text \<open>
  What the code reads of an rclone \<^verbatim>\<open>fs.Fs\<close>: its name and whether its features
  offer \<^verbatim>\<open>ChangeNotify\<close>.
\<close>

record Fs =
  fsName :: string
  ChangeNotify :: bool

section \<open>The watcher (delta/watcher.go)\<close>

record Watcher =
  w_remoteKey :: string
  w_remoteFs :: Fs
  changes :: "FileChange list"
  running :: bool

definition NewWatcher :: "string \<Rightarrow> Fs \<Rightarrow> Watcher" where
  "NewWatcher key remoteFs =
     \<lparr>w_remoteKey = key, w_remoteFs = remoteFs, changes = [], running = False\<rparr>"

definition Start :: "Watcher \<Rightarrow> Watcher" where
  "Start w =
     (if running w then w
      else if \<not> ChangeNotify (w_remoteFs w) then w
      else w\<lparr>changes := [], running := True\<rparr>)"

text \<open>The \<^verbatim>\<open>FileChange\<close> value that \<^verbatim>\<open>notifyCallback\<close> builds.\<close>

definition detected :: "string \<Rightarrow> fs_EntryType \<Rightarrow> time \<Rightarrow> FileChange" where
  "detected path entryType now =
     \<lparr>Path = path, EntryType = entryType, Type = ChangeModified, DetectedAt = now\<rparr>"

definition notifyCallback :: "Watcher \<Rightarrow> string \<Rightarrow> fs_EntryType \<Rightarrow> time \<Rightarrow> Watcher" where
  "notifyCallback w path entryType now =
     w\<lparr>changes := changes w @ [detected path entryType now]\<rparr>"

definition w_HasChanges :: "Watcher \<Rightarrow> bool" where
  "w_HasChanges w = (length (changes w) > 0)"

definition DrainChanges :: "Watcher \<Rightarrow> FileChange list \<times> Watcher" where
  "DrainChanges w =
     (if length (changes w) = 0 then ([], w)
      else (changes w, w\<lparr>changes := []\<rparr>))"

definition w_RestoreChanges :: "Watcher \<Rightarrow> FileChange list \<Rightarrow> Watcher" where
  "w_RestoreChanges w cs =
     (if length cs = 0 then w
      else w\<lparr>changes := cs @ changes w\<rparr>)"

definition IsRunning :: "Watcher \<Rightarrow> bool" where
  "IsRunning w = running w"

definition Stop :: "Watcher \<Rightarrow> Watcher" where
  "Stop w = (if \<not> running w then w else w\<lparr>running := False\<rparr>)"

section \<open>The delta store (delta/store.go)\<close>

text \<open>
  The \<^verbatim>\<open>delta_state\<close> table, keyed by \<^verbatim>\<open>remote_key\<close>. The column
  \<^verbatim>\<open>last_full_sync\<close> is NULL or a text; a text either parses as an RFC 3339 instant
  or does not. \<open>dbError\<close> says that \<^verbatim>\<open>getDB\<close> or the statement fails.
\<close>

datatype sql_time = SqlNull | SqlText "time option"

record delta_row =
  provider :: string
  is_watching :: int
  last_full_sync :: sql_time
  delta_count :: int
  updated_at :: time

record DeltaStore =
  dbError :: bool
  delta_state :: "string \<rightharpoonup> delta_row"

datatype store_error = DbError

definition GetState :: "DeltaStore \<Rightarrow> string \<Rightarrow> store_error + DeltaState option" where
  "GetState s key =
     (if dbError s then Inl DbError
      else case delta_state s key of
        None \<Rightarrow> Inr None
      | Some r \<Rightarrow> Inr (Some
          \<lparr>RemoteKey = key, Provider = provider r, IsWatching = (is_watching r \<noteq> 0),
           LastFullSync = (case last_full_sync r of SqlText (Some t) \<Rightarrow> Some t | _ \<Rightarrow> None),
           DeltaCount = delta_count r\<rparr>))"

definition RecordFullSync ::
  "DeltaStore \<Rightarrow> string \<Rightarrow> string \<Rightarrow> bool \<Rightarrow> time \<Rightarrow> store_error option \<times> DeltaStore" where
  "RecordFullSync s key prov isWatching now =
     (if dbError s then (Some DbError, s)
      else (None, s\<lparr>delta_state := (delta_state s)(key \<mapsto>
          \<lparr>provider = prov, is_watching = (if isWatching then 1 else 0),
           last_full_sync = SqlText (Some (rfc3339 now)), delta_count = 0,
           updated_at = rfc3339 now\<rparr>)\<rparr>))"

definition IncrementDeltaCount ::
  "DeltaStore \<Rightarrow> string \<Rightarrow> time \<Rightarrow> store_error option \<times> DeltaStore" where
  "IncrementDeltaCount s key now =
     (if dbError s then (Some DbError, s)
      else case delta_state s key of
        None \<Rightarrow> (None, s)
      | Some r \<Rightarrow> (None, s\<lparr>delta_state := (delta_state s)(key \<mapsto>
          r\<lparr>delta_count := delta_count r + 1, updated_at := rfc3339 now\<rparr>)\<rparr>))"

definition SetWatching ::
  "DeltaStore \<Rightarrow> string \<Rightarrow> bool \<Rightarrow> time \<Rightarrow> store_error option \<times> DeltaStore" where
  "SetWatching s key watching now =
     (if dbError s then (Some DbError, s)
      else case delta_state s key of
        None \<Rightarrow> (None, s)
      | Some r \<Rightarrow> (None, s\<lparr>delta_state := (delta_state s)(key \<mapsto>
          r\<lparr>is_watching := (if watching then 1 else 0), updated_at := rfc3339 now\<rparr>)\<rparr>))"

section \<open>The delta service (delta/service.go)\<close>

record DeltaService =
  store :: DeltaStore
  watchers :: "string \<rightharpoonup> Watcher"

definition getProviderType :: "Fs \<Rightarrow> string" where
  "getProviderType remoteFs = (if ChangeNotify remoteFs then fsName remoteFs else ''none'')"

definition EnsureWatcher :: "DeltaService \<Rightarrow> Fs \<Rightarrow> string \<Rightarrow> time \<Rightarrow> DeltaService" where
  "EnsureWatcher d remoteFs key now =
     (if getProviderType remoteFs = ''none'' then d
      else if (case watchers d key of Some w \<Rightarrow> IsRunning w | None \<Rightarrow> False) then d
      else
        (let w = Start (NewWatcher key remoteFs);
             d1 = d\<lparr>watchers := (watchers d)(key \<mapsto> w)\<rparr>
         in d1\<lparr>store := snd (SetWatching (store d1) key True now)\<rparr>))"

text \<open>
  The test \<^verbatim>\<open>state.LastFullSync != nil && time.Since(*state.LastFullSync) > MaxTimeBetweenFullSyncs\<close>.
\<close>

definition sinceExceeds :: "time \<Rightarrow> time option \<Rightarrow> bool" where
  "sinceExceeds now lastFullSync =
     (case lastFullSync of
        None \<Rightarrow> False
      | Some t \<Rightarrow> now - t > MaxTimeBetweenFullSyncs)"

definition ShouldSkipSync :: "DeltaService \<Rightarrow> string \<Rightarrow> time \<Rightarrow> bool" where
  "ShouldSkipSync d key now =
     (case watchers d key of
        None \<Rightarrow> False
      | Some w \<Rightarrow>
          if \<not> IsRunning w then False
          else (case GetState (store d) key of
            Inl err \<Rightarrow> False
          | Inr None \<Rightarrow> False
          | Inr (Some state) \<Rightarrow>
              (if DeltaCount state \<ge> MaxDeltaSyncsBeforeFullSync then False
               else if sinceExceeds now (LastFullSync state) then False
               else \<not> w_HasChanges w)))"

definition GetChanges :: "DeltaService \<Rightarrow> string \<Rightarrow> ChangeSet option \<times> DeltaService" where
  "GetChanges d key =
     (case watchers d key of
        None \<Rightarrow> (None, d)
      | Some w \<Rightarrow>
          if \<not> IsRunning w then (None, d)
          else
            (let (cs, w1) = DrainChanges w;
                 d1 = d\<lparr>watchers := (watchers d)(key \<mapsto> w1)\<rparr>
             in if length cs = 0
                then (Some \<lparr>cs_RemoteKey = key, Changes = [], HasChanges = False\<rparr>, d1)
                else (Some \<lparr>cs_RemoteKey = key, Changes = cs, HasChanges = True\<rparr>, d1)))"

definition RestoreChanges :: "DeltaService \<Rightarrow> string \<Rightarrow> FileChange list \<Rightarrow> DeltaService" where
  "RestoreChanges d key cs =
     (case watchers d key of
        None \<Rightarrow> d
      | Some w \<Rightarrow>
          if \<not> IsRunning w then d
          else d\<lparr>watchers := (watchers d)(key \<mapsto> w_RestoreChanges w cs)\<rparr>)"

definition CommitDelta :: "DeltaService \<Rightarrow> string \<Rightarrow> time \<Rightarrow> DeltaService" where
  "CommitDelta d key now = d\<lparr>store := snd (IncrementDeltaCount (store d) key now)\<rparr>"

definition CommitFullSync :: "DeltaService \<Rightarrow> Fs \<Rightarrow> string \<Rightarrow> time \<Rightarrow> DeltaService" where
  "CommitFullSync d remoteFs key now =
     (let prov = getProviderType remoteFs;
          d1 = (if prov \<noteq> ''none'' then EnsureWatcher d remoteFs key now else d);
          isWatching = (prov \<noteq> ''none'')
      in d1\<lparr>store := snd (RecordFullSync (store d1) key prov isWatching now)\<rparr>)"

section \<open>Status samples and the status channel\<close>

text \<open>
  \<^verbatim>\<open>dto.FileTransferInfo\<close> and \<^verbatim>\<open>dto.SyncStatusDTO\<close>, with the fields the backend
  fills from integers, strings and lists. The floating-point and clock fields (progress
  percentage, speed, ETA, elapsed time, timestamp) are presentation values that no other
  field is computed from; they are left out.
\<close>

record FileTransferInfo =
  ft_Name :: string
  ft_Size :: int
  ft_Bytes :: int
  ft_Status :: string
  ft_Error :: string

record SyncStatusDTO =
  Command :: string
  Status :: string
  TotalFiles :: int
  TotalBytes :: int
  FilesTransferred :: int
  BytesTransferred :: int
  Errors :: int
  Checks :: int
  TotalChecks :: int
  Deletes :: int
  Renames :: int
  Transfers :: "FileTransferInfo list"
  LogMessages :: "string list"
  DeltaMode :: bool
  DeltaSkipped :: bool

definition emptyStatus :: SyncStatusDTO where
  "emptyStatus =
     \<lparr>Command = [], Status = [], TotalFiles = 0, TotalBytes = 0, FilesTransferred = 0,
      BytesTransferred = 0, Errors = 0, Checks = 0, TotalChecks = 0, Deletes = 0, Renames = 0,
      Transfers = [], LogMessages = [], DeltaMode = False, DeltaSkipped = False\<rparr>"

text \<open>
  A Go channel of status samples: the samples waiting in it, the room it has, and
  whether it was closed. A nil channel is \<open>None\<close>. The non-blocking send
  \<^verbatim>\<open>select { case ch <- x: default: }\<close> delivers when there is room, takes the default
  branch when the channel is nil or full, and panics on a closed channel.
\<close>

record Chan =
  buf :: "SyncStatusDTO list"
  cap :: nat
  closed :: bool

datatype panic = SendOnClosedChannel

definition trySend :: "Chan option \<Rightarrow> SyncStatusDTO \<Rightarrow> panic + (bool \<times> Chan option)" where
  "trySend ch x =
     (case ch of
        None \<Rightarrow> Inr (False, None)
      | Some c \<Rightarrow>
          if closed c then Inl SendOnClosedChannel
          else if length (buf c) < cap c then Inr (True, Some (c\<lparr>buf := buf c @ [x]\<rparr>))
          else Inr (False, Some c))"

section \<open>The sync operation (rclone/sync.go)\<close>

record Profile =
  From :: string
  To :: string
  IncludedPaths :: "string list"
  ExcludedPaths :: "string list"
  UseRegex :: bool
  Bandwidth :: int

record FilterOpt =
  IncludeRule :: "string list"
  ExcludeRule :: "string list"

text \<open>
  Modelled from the spec: the context helpers \<^verbatim>\<open>CopyFilterOpt\<close> and
  \<^verbatim>\<open>filter.ReplaceConfig\<close> are not among the sources. The spec has each task run
  under a context whose filter is "replaced with a task-local compiled filter"; the
  context is modelled by the filter options it carries.
\<close>

record Ctx =
  ctxFilter :: FilterOpt

definition CopyFilterOpt :: "Ctx \<Rightarrow> FilterOpt" where
  "CopyFilterOpt ctx = ctxFilter ctx"

definition ReplaceConfig :: "Ctx \<Rightarrow> FilterOpt \<Rightarrow> Ctx" where
  "ReplaceConfig ctx opt = ctx\<lparr>ctxFilter := opt\<rparr>"

text \<open>
  The loop of \<^verbatim>\<open>applyScopeFilter\<close> over the changes: \<open>seen\<close> holds the paths already
  handled, \<open>rules\<close> the include rules so far.
\<close>

fun scopeIncludes :: "string list \<Rightarrow> string list \<Rightarrow> FileChange list \<Rightarrow> string list" where
  "scopeIncludes seen rules [] = rules"
| "scopeIncludes seen rules (c # cs) =
     (if Path c \<in> set seen then scopeIncludes seen rules cs
      else
        (let rules1 = (if EntryType c = EntryDirectory
                       then rules @ [''/'' @ Path c @ ''/**''] else rules)
         in scopeIncludes (Path c # seen) (rules1 @ [''/'' @ Path c]) cs))"

text \<open>
  \<open>newFilter\<close> stands for rclone's \<^verbatim>\<open>filter.NewFilter\<close>: whether the options compile.
  The result is the new context, or \<open>None\<close> when the caller's context is returned
  unchanged. \<open>scopeFilterOpt\<close> is the options the function builds before compiling them.
\<close>

definition scopeFilterOpt :: "Ctx \<Rightarrow> FileChange list \<Rightarrow> FilterOpt" where
  "scopeFilterOpt ctx cs =
     (let filterOpt = CopyFilterOpt ctx;
          filterOpt1 = filterOpt\<lparr>IncludeRule := scopeIncludes [] (IncludeRule filterOpt) cs\<rparr>
      in filterOpt1\<lparr>ExcludeRule := ExcludeRule filterOpt1 @ [''**'']\<rparr>)"

definition applyScopeFilter :: "(FilterOpt \<Rightarrow> bool) \<Rightarrow> Ctx \<Rightarrow> FileChange list \<Rightarrow> Ctx option" where
  "applyScopeFilter newFilter ctx cs =
     (let filterOpt = scopeFilterOpt ctx cs
      in if \<not> newFilter filterOpt then None
         else Some (ReplaceConfig ctx filterOpt))"

definition skippedStatus :: SyncStatusDTO where
  "skippedStatus =
     emptyStatus\<lparr>Command := ''sync_status'', Status := ''completed'',
       DeltaMode := True, DeltaSkipped := True\<rparr>"

definition sendSkippedStatus :: "Chan option \<Rightarrow> panic + Chan option" where
  "sendSkippedStatus outStatus =
     (case outStatus of
        None \<Rightarrow> Inr None
      | Some c \<Rightarrow>
          (case trySend (Some c) skippedStatus of
             Inl p \<Rightarrow> Inl p
           | Inr (sent, ch) \<Rightarrow> Inr ch))"

text \<open>
  What \<^verbatim>\<open>Sync\<close> gets from outside: rclone (\<^verbatim>\<open>fs.NewFs\<close>, the bandwidth limit, the
  filter compiler, the configuration reload, the transfer itself with the samples it puts
  on the status channel), the profile options applied to the context, the change
  callbacks that fire on watchers while the transfer runs, and the clock.
\<close>

record SyncEnv =
  newFs :: "string \<Rightarrow> Fs option"
  bwLimitOK :: bool
  newFilter :: "FilterOpt \<Rightarrow> bool"
  ApplyProfileOptions :: "Ctx \<Rightarrow> Profile \<Rightarrow> Ctx option"
  reloadOK :: bool
  transfer :: "Ctx \<Rightarrow> Chan option \<Rightarrow> bool \<times> Chan option"
  arrived :: "(string \<times> string \<times> fs_EntryType \<times> time) list"
  nowSrc :: time
  nowDst :: time
  nowCommit :: time

datatype SyncError =
  SrcFsFailed | DstFsFailed | BandwidthFailed | InvalidFilters | ProfileOptionsFailed
| ReloadFailed | SyncFailed | Panicked panic

datatype SyncRun = NotRun | Skipped | RanFull Ctx | RanScoped Ctx

record SyncResult =
  err :: "SyncError option"
  run :: SyncRun
  svc :: "DeltaService option"
  out :: "Chan option"

text \<open>A change callback reaching the watcher registered under a key, if there is one.\<close>

definition deliver :: "DeltaService \<Rightarrow> string \<times> string \<times> fs_EntryType \<times> time \<Rightarrow> DeltaService" where
  "deliver d ev =
     (case ev of (key, path, entryType, now) \<Rightarrow>
        (case watchers d key of
           None \<Rightarrow> d
         | Some w \<Rightarrow> d\<lparr>watchers := (watchers d)(key \<mapsto> notifyCallback w path entryType now)\<rparr>))"

text \<open>
  The first part of \<^verbatim>\<open>Sync\<close>, up to the configuration reload: the two file systems,
  the bandwidth limit, the profile's filter rules and options. It returns the profile
  (\<open>taskProfile\<close>: source and destination swapped for a pull), the file systems and the
  context.
\<close>

definition taskProfile :: "string \<Rightarrow> Profile \<Rightarrow> Profile" where
  "taskProfile task profile0 =
     (if task = ''pull'' then profile0\<lparr>From := To profile0, To := From profile0\<rparr>
      else profile0)"

definition syncSetup ::
  "SyncEnv \<Rightarrow> Ctx \<Rightarrow> string \<Rightarrow> Profile \<Rightarrow> SyncError + (Profile \<times> Fs \<times> Fs \<times> Ctx)" where
  "syncSetup env ctx task profile0 =
     (let profile = taskProfile task profile0
      in case newFs env (From profile) of
        None \<Rightarrow> Inl SrcFsFailed
      | Some srcFs \<Rightarrow>
       (case newFs env (To profile) of
          None \<Rightarrow> Inl DstFsFailed
        | Some dstFs \<Rightarrow>
            if Bandwidth profile > 0 \<and> \<not> bwLimitOK env then Inl BandwidthFailed
            else
              (let tag = (\<lambda>p. if UseRegex profile then ''{{regexp:}}'' @ p else p);
                   filterOpt = CopyFilterOpt ctx;
                   filterOpt1 = filterOpt\<lparr>
                     IncludeRule := IncludeRule filterOpt @ map tag (IncludedPaths profile),
                     ExcludeRule := ExcludeRule filterOpt @ map tag (ExcludedPaths profile)\<rparr>
               in if \<not> newFilter env filterOpt1 then Inl InvalidFilters
                  else
                    (case ApplyProfileOptions env (ReplaceConfig ctx filterOpt1) profile of
                       None \<Rightarrow> Inl ProfileOptionsFailed
                     | Some ctx1 \<Rightarrow>
                         if \<not> reloadOK env then Inl ReloadFailed
                         else Inr (profile, srcFs, dstFs, ctx1)))))"

text \<open>
  The delta part of \<^verbatim>\<open>Sync\<close>: skip, scope or run in full, then commit or restore.
\<close>

definition syncDelta ::
  "SyncEnv \<Rightarrow> Profile \<Rightarrow> Fs \<Rightarrow> Fs \<Rightarrow> Ctx \<Rightarrow> Chan option \<Rightarrow> DeltaService option \<Rightarrow> SyncResult" where
  "syncDelta env profile srcFs dstFs ctx outStatus deltaSvc =
     (let srcKey = remoteKey (From profile);
          dstKey = remoteKey (To profile)
      in case deltaSvc of
        None \<Rightarrow>
          (let (ok, out1) = transfer env ctx outStatus
           in \<lparr>err = (if ok then None else Some SyncFailed), run = RanFull ctx,
               svc = None, out = out1\<rparr>)
      | Some d \<Rightarrow>
          if ShouldSkipSync d srcKey (nowSrc env) \<and> ShouldSkipSync d dstKey (nowDst env)
          then
            (case sendSkippedStatus outStatus of
               Inl p \<Rightarrow> \<lparr>err = Some (Panicked p), run = NotRun, svc = Some d, out = outStatus\<rparr>
             | Inr out1 \<Rightarrow>
                 \<lparr>err = None, run = Skipped,
                  svc = Some (CommitDelta (CommitDelta d srcKey (nowCommit env)) dstKey (nowCommit env)),
                  out = out1\<rparr>)
          else
            (let (srcChanges, d1) = GetChanges d srcKey;
                 scoped = (case srcChanges of
                     None \<Rightarrow> None
                   | Some cs \<Rightarrow>
                       if HasChanges cs \<and> length (Changes cs) < MaxChangesBeforeFallback
                       then (case applyScopeFilter (newFilter env) ctx (Changes cs) of
                               None \<Rightarrow> None
                             | Some scopedCtx \<Rightarrow> Some (scopedCtx, Changes cs))
                       else None);
                 usedDelta = (scoped \<noteq> None);
                 ctx1 = (case scoped of None \<Rightarrow> ctx | Some (scopedCtx, drained) \<Rightarrow> scopedCtx);
                 drainedChanges = (case scoped of None \<Rightarrow> [] | Some (scopedCtx, drained) \<Rightarrow> drained);
                 (ok, out1) = transfer env ctx1 outStatus;
                 d2 = foldl deliver d1 (arrived env);
                 d3 = (if ok then
                         (if usedDelta
                          then CommitDelta (CommitDelta d2 srcKey (nowCommit env)) dstKey (nowCommit env)
                          else CommitFullSync (CommitFullSync d2 srcFs srcKey (nowCommit env))
                                 dstFs dstKey (nowCommit env))
                       else if usedDelta \<and> length drainedChanges > 0
                       then RestoreChanges d2 srcKey drainedChanges
                       else d2)
             in \<lparr>err = (if ok then None else Some SyncFailed),
                 run = (if usedDelta then RanScoped ctx1 else RanFull ctx1),
                 svc = Some d3, out = out1\<rparr>))"

definition Sync ::
  "SyncEnv \<Rightarrow> Ctx \<Rightarrow> string \<Rightarrow> Profile \<Rightarrow> Chan option \<Rightarrow> DeltaService option \<Rightarrow> SyncResult" where
  "Sync env ctx task profile0 outStatus deltaSvc =
     (case syncSetup env ctx task profile0 of
        Inl e \<Rightarrow> \<lparr>err = Some e, run = NotRun, svc = deltaSvc, out = outStatus\<rparr>
      | Inr (profile, srcFs, dstFs, ctx1) \<Rightarrow>
          syncDelta env profile srcFs dstFs ctx1 outStatus deltaSvc)"

section \<open>Properties of the delta engine\<close>

subsection \<open>Accounting for watcher events\<close>

text \<open>
  A period of operation of one watcher is a list of operations on it: callbacks of
  \<^verbatim>\<open>ChangeNotify\<close>, drains and restores. The log records, next to the watcher, every
  change a callback built, every change a drain delivered and every change a restore put
  back.
\<close>

datatype WatcherOp = OpCallback string fs_EntryType time | OpDrain | OpRestore "FileChange list"

record WatcherLog =
  callbacks :: "FileChange list"
  delivered :: "FileChange list"
  restored :: "FileChange list"

definition emptyLog :: WatcherLog where
  "emptyLog = \<lparr>callbacks = [], delivered = [], restored = []\<rparr>"

fun stepOp :: "Watcher \<times> WatcherLog \<Rightarrow> WatcherOp \<Rightarrow> Watcher \<times> WatcherLog" where
  "stepOp (w, l) (OpCallback path entryType now) =
     (notifyCallback w path entryType now,
      l\<lparr>callbacks := callbacks l @ [detected path entryType now]\<rparr>)"
| "stepOp (w, l) OpDrain =
     (snd (DrainChanges w), l\<lparr>delivered := delivered l @ fst (DrainChanges w)\<rparr>)"
| "stepOp (w, l) (OpRestore cs) =
     (w_RestoreChanges w cs, l\<lparr>restored := restored l @ cs\<rparr>)"

definition runOps :: "Watcher \<Rightarrow> WatcherOp list \<Rightarrow> Watcher \<times> WatcherLog" where
  "runOps w ops = foldl stepOp (w, emptyLog) ops"

definition accounted :: "FileChange list \<Rightarrow> Watcher \<times> WatcherLog \<Rightarrow> bool" where
  "accounted initial s =
     (mset (delivered (snd s)) + mset (changes (fst s)) =
      mset initial + mset (callbacks (snd s)) + mset (restored (snd s)))"

lemma stepOp_accounted: "accounted b s \<Longrightarrow> accounted b (stepOp s op)"
  by (cases s; cases op)
     (auto simp: accounted_def notifyCallback_def DrainChanges_def w_RestoreChanges_def)

lemma foldl_stepOp_accounted: "accounted b s \<Longrightarrow> accounted b (foldl stepOp s ops)"
  by (induction ops arbitrary: s) (simp_all add: stepOp_accounted)

lemma runOps_accounted: "accounted (changes w) (runOps w ops)"
  unfolding runOps_def
  by (rule foldl_stepOp_accounted) (simp add: accounted_def emptyLog_def)

text \<open>
  The changes that the callbacks firing during a transfer append to the buffer of the
  watcher registered under a key.
\<close>

definition arrivedFor :: "string \<Rightarrow> (string \<times> string \<times> fs_EntryType \<times> time) list \<Rightarrow> FileChange list" where
  "arrivedFor key evs =
     map (\<lambda>(k, path, entryType, now). detected path entryType now) (filter (\<lambda>ev. fst ev = key) evs)"

lemma deliver_watchers:
  "watchers (deliver d ev) k =
     (case watchers d k of None \<Rightarrow> None
      | Some w \<Rightarrow> Some (w\<lparr>changes := changes w @ arrivedFor k [ev]\<rparr>))"
  by (cases ev) (auto simp: deliver_def arrivedFor_def notifyCallback_def split: option.splits)

lemma foldl_deliver_watchers:
  "watchers (foldl deliver d evs) k =
     (case watchers d k of None \<Rightarrow> None
      | Some w \<Rightarrow> Some (w\<lparr>changes := changes w @ arrivedFor k evs\<rparr>))"
proof (induction evs arbitrary: d)
  case Nil
  show ?case by (simp add: arrivedFor_def split: option.splits)
next
  case (Cons ev evs)
  show ?case
    by (simp add: Cons.IH deliver_watchers arrivedFor_def split: option.splits)
qed

subsection \<open>The three ways a sync runs\<close>

lemma syncSetup_profile:
  "syncSetup env ctx task prof = Inr (profile, srcFs, dstFs, ctx1) \<Longrightarrow>
   profile = taskProfile task prof"
  by (auto simp: syncSetup_def Let_def split: option.splits if_splits)

lemma GetChanges_running:
  "watchers d key = Some w \<Longrightarrow> IsRunning w \<Longrightarrow>
   GetChanges d key =
     (Some \<lparr>cs_RemoteKey = key, Changes = changes w, HasChanges = (changes w \<noteq> [])\<rparr>,
      d\<lparr>watchers := (watchers d)(key \<mapsto> w\<lparr>changes := []\<rparr>)\<rparr>)"
proof (cases "changes w = []")
  case True
  assume w: "watchers d key = Some w" and r: "IsRunning w"
  from True have "w = w\<lparr>changes := []\<rparr>"
    by (cases w) simp
  then have "(watchers d)(key \<mapsto> w) = (watchers d)(key \<mapsto> w\<lparr>changes := []\<rparr>)"
    by simp
  with w r True show ?thesis
    by (simp add: GetChanges_def DrainChanges_def Let_def)
next
  case False
  assume w: "watchers d key = Some w" and r: "IsRunning w"
  with False show ?thesis
    by (simp add: GetChanges_def DrainChanges_def Let_def)
qed

lemma GetChanges_none:
  "fst (GetChanges d key) = None \<longleftrightarrow> (case watchers d key of None \<Rightarrow> True | Some w \<Rightarrow> \<not> IsRunning w)"
  by (auto simp: GetChanges_def DrainChanges_def Let_def split: option.splits)

lemma syncDelta_scoped_source:
  assumes "run (syncDelta env profile srcFs dstFs ctx outStatus (Some d)) = RanScoped sc"
  shows "\<exists>w. watchers d (remoteKey (From profile)) = Some w \<and> IsRunning w \<and>
             changes w \<noteq> [] \<and> length (changes w) < MaxChangesBeforeFallback \<and>
             applyScopeFilter (newFilter env) ctx (changes w) = Some sc"
proof (cases "watchers d (remoteKey (From profile))")
  case None
  then have "GetChanges d (remoteKey (From profile)) = (None, d)"
    by (simp add: GetChanges_def)
  with assms show ?thesis
    by (auto simp: syncDelta_def Let_def split: sum.splits if_splits prod.splits)
next
  case (Some w)
  show ?thesis
  proof (cases "IsRunning w")
    case False
    with Some have "GetChanges d (remoteKey (From profile)) = (None, d)"
      by (simp add: GetChanges_def)
    with assms show ?thesis
      by (auto simp: syncDelta_def Let_def split: sum.splits if_splits prod.splits)
  next
    case True
    note g = GetChanges_running [OF Some True]
    from assms show ?thesis
      by (auto simp: syncDelta_def Let_def g Some True
               split: sum.splits if_splits prod.splits option.splits)
  qed
qed

lemma ShouldSkipSync_iff:
  "ShouldSkipSync d key now \<longleftrightarrow>
     (\<exists>w state. watchers d key = Some w \<and> IsRunning w \<and>
        GetState (store d) key = Inr (Some state) \<and>
        DeltaCount state < 50 \<and>
        (\<forall>t. LastFullSync state = Some t \<longrightarrow> now - t \<le> 24 * hour) \<and>
        changes w = [])"
  by (auto simp: ShouldSkipSync_def sinceExceeds_def w_HasChanges_def
        MaxDeltaSyncsBeforeFullSync_def MaxTimeBetweenFullSyncs_def
      split: option.splits sum.splits)

lemma ShouldSkipSync_changes:
  "watchers d key = Some w \<Longrightarrow> changes w \<noteq> [] \<Longrightarrow> \<not> ShouldSkipSync d key now"
  by (simp add: ShouldSkipSync_iff)

lemma syncDelta_scoped_eq:
  assumes w: "watchers d (remoteKey (From profile)) = Some w" and r: "IsRunning w"
    and ne: "changes w \<noteq> []" and lt: "length (changes w) < MaxChangesBeforeFallback"
    and sc: "applyScopeFilter (newFilter env) ctx (changes w) = Some sc"
  shows "syncDelta env profile srcFs dstFs ctx outStatus (Some d) =
     (let srcKey = remoteKey (From profile); dstKey = remoteKey (To profile);
          d1 = d\<lparr>watchers := (watchers d)(srcKey \<mapsto> w\<lparr>changes := []\<rparr>)\<rparr>;
          d2 = foldl deliver d1 (arrived env);
          ok = fst (transfer env sc outStatus)
      in \<lparr>err = (if ok then None else Some SyncFailed), run = RanScoped sc,
          svc = Some (if ok
                      then CommitDelta (CommitDelta d2 srcKey (nowCommit env)) dstKey (nowCommit env)
                      else RestoreChanges d2 srcKey (changes w)),
          out = snd (transfer env sc outStatus)\<rparr>)"
  using ShouldSkipSync_changes [OF w ne, of "nowSrc env"] ne lt sc
  by (simp add: syncDelta_def Let_def GetChanges_running [OF w r] split: prod.splits)

lemma syncDelta_scoped_failed:
  assumes run: "run (syncDelta env profile srcFs dstFs ctx outStatus (Some d)) = RanScoped sc"
    and failed: "err (syncDelta env profile srcFs dstFs ctx outStatus (Some d)) \<noteq> None"
  shows "\<exists>w d'. watchers d (remoteKey (From profile)) = Some w \<and>
           svc (syncDelta env profile srcFs dstFs ctx outStatus (Some d)) = Some d' \<and>
           watchers d' (remoteKey (From profile)) =
             Some (w\<lparr>changes := changes w @ arrivedFor (remoteKey (From profile)) (arrived env)\<rparr>)"
proof -
  from syncDelta_scoped_source [OF run] obtain w where
    w: "watchers d (remoteKey (From profile)) = Some w" and r: "IsRunning w"
    and ne: "changes w \<noteq> []" and lt: "length (changes w) < MaxChangesBeforeFallback"
    and sc: "applyScopeFilter (newFilter env) ctx (changes w) = Some sc"
    by blast
  note eq = syncDelta_scoped_eq [OF w r ne lt sc, of srcFs dstFs outStatus]
  from failed have nok: "\<not> fst (transfer env sc outStatus)"
    by (simp add: eq Let_def split: if_splits)
  from r have "running w" by (simp add: IsRunning_def)
  with w ne nok show ?thesis
    by (simp add: eq Let_def RestoreChanges_def foldl_deliver_watchers IsRunning_def
          w_RestoreChanges_def)
qed

lemma remoteKey_eq:
  "remoteKey path = (if CHR '':'' \<in> set path then path else ''local:'' @ path)"
  using strings_Index_char [of path "CHR '':''"] by (simp add: remoteKey_def)

lemma syncDelta_skipped:
  assumes "run (syncDelta env profile srcFs dstFs ctx outStatus deltaSvc) = Skipped"
  shows "\<exists>d. deltaSvc = Some d \<and>
           ShouldSkipSync d (remoteKey (From profile)) (nowSrc env) \<and>
           ShouldSkipSync d (remoteKey (To profile)) (nowDst env) \<and>
           svc (syncDelta env profile srcFs dstFs ctx outStatus deltaSvc) =
             Some (CommitDelta (CommitDelta d (remoteKey (From profile)) (nowCommit env))
                     (remoteKey (To profile)) (nowCommit env)) \<and>
           sendSkippedStatus outStatus =
             Inr (out (syncDelta env profile srcFs dstFs ctx outStatus deltaSvc))"
  using assms
  by (auto simp: syncDelta_def Let_def split: option.splits sum.splits prod.splits if_splits)

lemma Sync_cases:
  "(\<exists>e. syncSetup env ctx task prof = Inl e \<and>
        Sync env ctx task prof outStatus deltaSvc =
          \<lparr>err = Some e, run = NotRun, svc = deltaSvc, out = outStatus\<rparr>) \<or>
   (\<exists>srcFs dstFs ctx1. syncSetup env ctx task prof =
        Inr (taskProfile task prof, srcFs, dstFs, ctx1) \<and>
        Sync env ctx task prof outStatus deltaSvc =
          syncDelta env (taskProfile task prof) srcFs dstFs ctx1 outStatus deltaSvc)"
proof (cases "syncSetup env ctx task prof")
  case (Inl e)
  then show ?thesis by (simp add: Sync_def)
next
  case (Inr t)
  obtain profile srcFs dstFs ctx1 where t: "t = (profile, srcFs, dstFs, ctx1)"
    by (cases t) auto
  from Inr t have "profile = taskProfile task prof"
    by (simp add: syncSetup_profile)
  with Inr t show ?thesis by (simp add: Sync_def)
qed

subsection \<open>Skipping\<close>

text \<open>
  C1. \<^verbatim>\<open>ShouldSkipSync\<close> returns true for a key only when a watcher for the key exists
  and is running, the persisted state of the key is read without error and is present,
  its consecutive-delta counter is below 50, no more than 24 hours have passed since the
  last full sync it records (if it records one), and the watcher's buffer is empty.
  \<^verbatim>\<open>Sync\<close> skips the transfer only when a delta service is given and
  \<^verbatim>\<open>ShouldSkipSync\<close> is true for the source key and for the destination key; it then
  sends the delta-skip status and commits a delta on both sides.
\<close>

theorem skip_only_when_both_quiet:
  "(ShouldSkipSync d key now \<longrightarrow>
      (\<exists>w state. watchers d key = Some w \<and> IsRunning w \<and>
         GetState (store d) key = Inr (Some state) \<and>
         DeltaCount state < 50 \<and>
         (\<forall>t. LastFullSync state = Some t \<longrightarrow> now - t \<le> 24 * hour) \<and>
         changes w = [])) \<and>
   (run (Sync env ctx task prof outStatus deltaSvc) = Skipped \<longrightarrow>
      (\<exists>d'. deltaSvc = Some d' \<and>
         ShouldSkipSync d' (remoteKey (From (taskProfile task prof))) (nowSrc env) \<and>
         ShouldSkipSync d' (remoteKey (To (taskProfile task prof))) (nowDst env) \<and>
         svc (Sync env ctx task prof outStatus deltaSvc) =
           Some (CommitDelta (CommitDelta d' (remoteKey (From (taskProfile task prof))) (nowCommit env))
                   (remoteKey (To (taskProfile task prof))) (nowCommit env)) \<and>
         sendSkippedStatus outStatus = Inr (out (Sync env ctx task prof outStatus deltaSvc))))"
proof (intro conjI impI)
  assume "ShouldSkipSync d key now"
  then show "\<exists>w state. watchers d key = Some w \<and> IsRunning w \<and>
         GetState (store d) key = Inr (Some state) \<and>
         DeltaCount state < 50 \<and>
         (\<forall>t. LastFullSync state = Some t \<longrightarrow> now - t \<le> 24 * hour) \<and>
         changes w = []"
    by (simp only: ShouldSkipSync_iff)
next
  assume sk: "run (Sync env ctx task prof outStatus deltaSvc) = Skipped"
  from Sync_cases [of env ctx task prof outStatus deltaSvc] sk
  obtain srcFs dstFs ctx1 where
    eq: "Sync env ctx task prof outStatus deltaSvc =
          syncDelta env (taskProfile task prof) srcFs dstFs ctx1 outStatus deltaSvc"
    by auto
  from sk show "\<exists>d'. deltaSvc = Some d' \<and>
         ShouldSkipSync d' (remoteKey (From (taskProfile task prof))) (nowSrc env) \<and>
         ShouldSkipSync d' (remoteKey (To (taskProfile task prof))) (nowDst env) \<and>
         svc (Sync env ctx task prof outStatus deltaSvc) =
           Some (CommitDelta (CommitDelta d' (remoteKey (From (taskProfile task prof))) (nowCommit env))
                   (remoteKey (To (taskProfile task prof))) (nowCommit env)) \<and>
         sendSkippedStatus outStatus = Inr (out (Sync env ctx task prof outStatus deltaSvc))"
    unfolding eq by (rule syncDelta_skipped)
qed

subsection \<open>A push from a local directory to a remote\<close>

text \<open>
  The profile of the spec's scenarios: a local source (key \<^verbatim>\<open>local:/a\<close>), a remote
  destination, a running watcher on each side, ten delta syncs since a full sync one hour
  ago, every external call succeeding except, possibly, the transfer.
\<close>

definition ex_fs :: Fs where
  "ex_fs = \<lparr>fsName = ''drive'', ChangeNotify = True\<rparr>"

definition ex_ctx :: Ctx where
  "ex_ctx = \<lparr>ctxFilter = \<lparr>IncludeRule = [], ExcludeRule = []\<rparr>\<rparr>"

definition ex_profile :: Profile where
  "ex_profile = \<lparr>From = ''/a'', To = ''gdrive:/a'', IncludedPaths = [], ExcludedPaths = [],
     UseRegex = False, Bandwidth = 0\<rparr>"

definition ex_row :: delta_row where
  "ex_row = \<lparr>provider = ''drive'', is_watching = 1, last_full_sync = SqlText (Some 0),
     delta_count = 10, updated_at = 0\<rparr>"

definition ex_store :: DeltaStore where
  "ex_store = \<lparr>dbError = False,
     delta_state = [''local:/a'' \<mapsto> ex_row, ''gdrive:/a'' \<mapsto> ex_row]\<rparr>"

definition ex_watcher :: "string \<Rightarrow> FileChange list \<Rightarrow> Watcher" where
  "ex_watcher key cs = \<lparr>w_remoteKey = key, w_remoteFs = ex_fs, changes = cs, running = True\<rparr>"

definition ex_service :: "FileChange list \<Rightarrow> DeltaService" where
  "ex_service cs = \<lparr>store = ex_store,
     watchers = [''local:/a'' \<mapsto> ex_watcher ''local:/a'' cs,
                 ''gdrive:/a'' \<mapsto> ex_watcher ''gdrive:/a'' []]\<rparr>"

definition ex_env :: "bool \<Rightarrow> (string \<times> string \<times> fs_EntryType \<times> time) list \<Rightarrow> SyncEnv" where
  "ex_env ok evs = \<lparr>newFs = (\<lambda>p. Some ex_fs), bwLimitOK = True, newFilter = (\<lambda>opt. True),
     ApplyProfileOptions = (\<lambda>c p. Some c), reloadOK = True,
     transfer = (\<lambda>c ch. (ok, ch)), arrived = evs,
     nowSrc = hour, nowDst = hour, nowCommit = hour\<rparr>"

definition ex_chan :: Chan where
  "ex_chan = \<lparr>buf = [], cap = 64, closed = False\<rparr>"

lemma ex_env_sel:
  "nowSrc (ex_env ok evs) = hour" "nowDst (ex_env ok evs) = hour" "nowCommit (ex_env ok evs) = hour"
  "arrived (ex_env ok evs) = evs" "transfer (ex_env ok evs) c ch = (ok, ch)"
  "newFilter (ex_env ok evs) opt"
  by (simp_all add: ex_env_def)

lemma ex_setup:
  "syncSetup (ex_env ok evs) ex_ctx ''push'' ex_profile = Inr (ex_profile, ex_fs, ex_fs, ex_ctx)"
  by (simp add: syncSetup_def taskProfile_def ex_env_def ex_profile_def ex_ctx_def
        CopyFilterOpt_def ReplaceConfig_def)

lemma ex_keys:
  "remoteKey (From ex_profile) = ''local:/a''" "remoteKey (To ex_profile) = ''gdrive:/a''"
  by (simp_all add: remoteKey_eq ex_profile_def)

lemma ex_skip_src: "ShouldSkipSync (ex_service []) ''local:/a'' hour"
  by (simp add: ShouldSkipSync_def ex_service_def ex_store_def ex_watcher_def ex_row_def
        IsRunning_def GetState_def sinceExceeds_def w_HasChanges_def
        MaxDeltaSyncsBeforeFullSync_def MaxTimeBetweenFullSyncs_def hour_def second_def)

lemma ex_skip_dst: "ShouldSkipSync (ex_service cs) ''gdrive:/a'' hour"
  by (simp add: ShouldSkipSync_def ex_service_def ex_store_def ex_watcher_def ex_row_def
        IsRunning_def GetState_def sinceExceeds_def w_HasChanges_def
        MaxDeltaSyncsBeforeFullSync_def MaxTimeBetweenFullSyncs_def hour_def second_def)

lemma ex_sync_skipped:
  "run (Sync (ex_env ok evs) ex_ctx ''push'' ex_profile (Some ex_chan) (Some (ex_service []))) = Skipped"
  using ex_skip_src ex_skip_dst [of "[]"]
  by (simp add: Sync_def ex_setup syncDelta_def ex_keys sendSkippedStatus_def trySend_def
        ex_chan_def ex_env_sel)

theorem skip_only_when_both_quiet_witness:
  "ShouldSkipSync (ex_service []) ''local:/a'' hour \<and>
   (\<exists>w state. watchers (ex_service []) ''local:/a'' = Some w \<and> IsRunning w \<and>
      GetState (store (ex_service [])) ''local:/a'' = Inr (Some state) \<and>
      DeltaCount state < 50 \<and>
      (\<forall>t. LastFullSync state = Some t \<longrightarrow> hour - t \<le> 24 * hour) \<and>
      changes w = []) \<and>
   run (Sync (ex_env True []) ex_ctx ''push'' ex_profile (Some ex_chan) (Some (ex_service []))) = Skipped \<and>
   ShouldSkipSync (ex_service []) (remoteKey (From (taskProfile ''push'' ex_profile))) hour \<and>
   ShouldSkipSync (ex_service []) (remoteKey (To (taskProfile ''push'' ex_profile))) hour"
  using skip_only_when_both_quiet [of "ex_service []" "''local:/a''" hour "ex_env True []" ex_ctx
      "''push''" ex_profile "Some ex_chan" "Some (ex_service [])"]
    ex_skip_src ex_sync_skipped
  by (auto simp: ex_env_sel)

subsection \<open>No change is lost\<close>

lemma RestoreChanges_running:
  "watchers d key = Some w \<Longrightarrow> IsRunning w \<Longrightarrow>
   watchers (RestoreChanges d key cs) key = Some (w\<lparr>changes := cs @ changes w\<rparr>)"
  by (simp add: RestoreChanges_def w_RestoreChanges_def)

text \<open>
  C3. Over any period of operation of a watcher, what the drains delivered together with
  what is still buffered is exactly what the buffer held at the start, what the callbacks
  appended and what the restores put back: every callback's change is delivered or still
  waiting. \<^verbatim>\<open>RestoreChanges\<close> puts the restored changes before everything in the
  buffer, on the watcher and through the service for a running watcher. When a scoped
  sync fails, the source watcher's buffer afterwards is the drained changes followed by
  the changes that arrived during the transfer.
\<close>

theorem no_change_lost:
  "(runOps w ops = (w', l) \<longrightarrow>
      mset (delivered l) + mset (changes w') =
      mset (changes w) + mset (callbacks l) + mset (restored l)) \<and>
   changes (w_RestoreChanges w cs) = cs @ changes w \<and>
   (watchers d key = Some w \<and> IsRunning w \<longrightarrow>
      watchers (RestoreChanges d key cs) key = Some (w\<lparr>changes := cs @ changes w\<rparr>)) \<and>
   (run (Sync env ctx task prof outStatus (Some d)) = RanScoped sc \<and>
    err (Sync env ctx task prof outStatus (Some d)) \<noteq> None \<longrightarrow>
      (\<exists>w0 d'. watchers d (remoteKey (From (taskProfile task prof))) = Some w0 \<and>
         svc (Sync env ctx task prof outStatus (Some d)) = Some d' \<and>
         watchers d' (remoteKey (From (taskProfile task prof))) =
           Some (w0\<lparr>changes := changes w0 @
             arrivedFor (remoteKey (From (taskProfile task prof))) (arrived env)\<rparr>)))"
proof (intro conjI impI)
  assume "runOps w ops = (w', l)"
  with runOps_accounted [of w ops]
  show "mset (delivered l) + mset (changes w') =
      mset (changes w) + mset (callbacks l) + mset (restored l)"
    by (simp add: accounted_def)
next
  show "changes (w_RestoreChanges w cs) = cs @ changes w"
    by (simp add: w_RestoreChanges_def)
next
  assume "watchers d key = Some w \<and> IsRunning w"
  then show "watchers (RestoreChanges d key cs) key = Some (w\<lparr>changes := cs @ changes w\<rparr>)"
    by (simp add: RestoreChanges_running)
next
  assume a: "run (Sync env ctx task prof outStatus (Some d)) = RanScoped sc \<and>
    err (Sync env ctx task prof outStatus (Some d)) \<noteq> None"
  from Sync_cases [of env ctx task prof outStatus "Some d"] a
  obtain srcFs dstFs ctx1 where
    eq: "Sync env ctx task prof outStatus (Some d) =
          syncDelta env (taskProfile task prof) srcFs dstFs ctx1 outStatus (Some d)"
    by auto
  from a show "\<exists>w0 d'. watchers d (remoteKey (From (taskProfile task prof))) = Some w0 \<and>
         svc (Sync env ctx task prof outStatus (Some d)) = Some d' \<and>
         watchers d' (remoteKey (From (taskProfile task prof))) =
           Some (w0\<lparr>changes := changes w0 @
             arrivedFor (remoteKey (From (taskProfile task prof))) (arrived env)\<rparr>)"
    unfolding eq by (intro syncDelta_scoped_failed) simp_all
qed

definition ex_ops :: "WatcherOp list" where
  "ex_ops = [OpCallback ''a'' EntryObject 1, OpDrain, OpCallback ''b'' EntryObject 2,
             OpRestore [detected ''a'' EntryObject 1], OpDrain]"

lemma ex_runOps:
  "runOps (ex_watcher ''local:/a'' []) ex_ops =
     (ex_watcher ''local:/a'' [],
      \<lparr>callbacks = [detected ''a'' EntryObject 1, detected ''b'' EntryObject 2],
       delivered = [detected ''a'' EntryObject 1, detected ''a'' EntryObject 1,
                    detected ''b'' EntryObject 2],
       restored = [detected ''a'' EntryObject 1]\<rparr>)"
  by (simp add: runOps_def ex_ops_def emptyLog_def ex_watcher_def notifyCallback_def
        DrainChanges_def w_RestoreChanges_def)

lemma ex_scope:
  "applyScopeFilter (newFilter (ex_env ok evs)) ex_ctx cs = Some (ReplaceConfig ex_ctx (scopeFilterOpt ex_ctx cs))"
  by (simp add: applyScopeFilter_def ex_env_sel)

lemma ex_service_src:
  "watchers (ex_service cs) ''local:/a'' = Some (ex_watcher ''local:/a'' cs)"
  "IsRunning (ex_watcher k cs)" "changes (ex_watcher k cs) = cs"
  by (simp_all add: ex_service_def IsRunning_def ex_watcher_def)

lemma ex_sync_scoped:
  assumes "cs \<noteq> []" "length cs < MaxChangesBeforeFallback"
  shows "run (Sync (ex_env ok evs) ex_ctx ''push'' ex_profile outStatus (Some (ex_service cs))) =
           RanScoped (ReplaceConfig ex_ctx (scopeFilterOpt ex_ctx cs))"
    and "err (Sync (ex_env ok evs) ex_ctx ''push'' ex_profile outStatus (Some (ex_service cs))) =
           (if ok then None else Some SyncFailed)"
proof -
  have w: "watchers (ex_service cs) (remoteKey (From ex_profile)) = Some (ex_watcher ''local:/a'' cs)"
    by (simp add: ex_keys ex_service_src)
  have c: "changes (ex_watcher ''local:/a'' cs) \<noteq> []"
       "length (changes (ex_watcher ''local:/a'' cs)) < MaxChangesBeforeFallback"
    using assms by (simp_all add: ex_service_src)
  have s: "applyScopeFilter (newFilter (ex_env ok evs)) ex_ctx (changes (ex_watcher ''local:/a'' cs)) =
      Some (ReplaceConfig ex_ctx (scopeFilterOpt ex_ctx cs))"
    by (simp add: ex_scope ex_service_src)
  note eq = syncDelta_scoped_eq [OF w ex_service_src(2) c s, of ex_fs ex_fs outStatus]
  show "run (Sync (ex_env ok evs) ex_ctx ''push'' ex_profile outStatus (Some (ex_service cs))) =
           RanScoped (ReplaceConfig ex_ctx (scopeFilterOpt ex_ctx cs))"
    by (simp add: Sync_def ex_setup eq Let_def)
  show "err (Sync (ex_env ok evs) ex_ctx ''push'' ex_profile outStatus (Some (ex_service cs))) =
           (if ok then None else Some SyncFailed)"
    by (simp add: Sync_def ex_setup eq Let_def ex_env_sel)
qed

theorem no_change_lost_witness:
  "runOps (ex_watcher ''local:/a'' []) ex_ops =
     (ex_watcher ''local:/a'' [],
      \<lparr>callbacks = [detected ''a'' EntryObject 1, detected ''b'' EntryObject 2],
       delivered = [detected ''a'' EntryObject 1, detected ''a'' EntryObject 1,
                    detected ''b'' EntryObject 2],
       restored = [detected ''a'' EntryObject 1]\<rparr>) \<and>
   watchers (ex_service [detected ''b'' EntryObject 2]) ''local:/a'' =
     Some (ex_watcher ''local:/a'' [detected ''b'' EntryObject 2]) \<and>
   IsRunning (ex_watcher ''local:/a'' [detected ''b'' EntryObject 2]) \<and>
   watchers (RestoreChanges (ex_service [detected ''b'' EntryObject 2]) ''local:/a''
               [detected ''a'' EntryObject 1]) ''local:/a'' =
     Some (ex_watcher ''local:/a'' [detected ''a'' EntryObject 1, detected ''b'' EntryObject 2]) \<and>
   run (Sync (ex_env False [(''local:/a'', ''c'', EntryObject, 5)]) ex_ctx ''push'' ex_profile None
          (Some (ex_service [detected ''a'' EntryObject 1]))) =
     RanScoped (ReplaceConfig ex_ctx (scopeFilterOpt ex_ctx [detected ''a'' EntryObject 1])) \<and>
   err (Sync (ex_env False [(''local:/a'', ''c'', EntryObject, 5)]) ex_ctx ''push'' ex_profile None
          (Some (ex_service [detected ''a'' EntryObject 1]))) \<noteq> None \<and>
   (\<exists>d'. svc (Sync (ex_env False [(''local:/a'', ''c'', EntryObject, 5)]) ex_ctx ''push'' ex_profile None
          (Some (ex_service [detected ''a'' EntryObject 1]))) = Some d' \<and>
      watchers d' ''local:/a'' =
        Some (ex_watcher ''local:/a'' [detected ''a'' EntryObject 1, detected ''c'' EntryObject 5])) \<and>
   mset [detected ''a'' EntryObject 1, detected ''a'' EntryObject 1, detected ''b'' EntryObject 2] +
     mset (changes (ex_watcher ''local:/a'' [])) =
   mset (changes (ex_watcher ''local:/a'' [])) +
     mset [detected ''a'' EntryObject 1, detected ''b'' EntryObject 2] +
     mset [detected ''a'' EntryObject 1]"
proof -
  let ?a = "detected ''a'' EntryObject 1" and ?b = "detected ''b'' EntryObject 2"
  let ?env = "ex_env False [(''local:/a'', ''c'', EntryObject, 5)]"
  let ?sc = "ReplaceConfig ex_ctx (scopeFilterOpt ex_ctx [?a])"
  let ?S = "Sync ?env ex_ctx ''push'' ex_profile None (Some (ex_service [?a]))"
  note t = no_change_lost [where w = "ex_watcher ''local:/a'' [?b]"
      and cs = "[?a]" and d = "ex_service [?b]" and key = "''local:/a''"]
  note t0 = no_change_lost [where w = "ex_watcher ''local:/a'' []" and ops = ex_ops
      and w' = "ex_watcher ''local:/a'' []"
      and l = "\<lparr>callbacks = [?a, ?b], delivered = [?a, ?a, ?b], restored = [?a]\<rparr>"]
  note t' = no_change_lost [where d = "ex_service [?a]" and env = ?env and ctx = ex_ctx
      and task = "''push''" and prof = ex_profile and outStatus = None and sc = ?sc]
  have h2: "watchers (ex_service [?b]) ''local:/a'' = Some (ex_watcher ''local:/a'' [?b]) \<and>
      IsRunning (ex_watcher ''local:/a'' [?b])"
    by (simp add: ex_service_src)
  have h3: "run ?S = RanScoped ?sc \<and> err ?S \<noteq> None"
    using ex_sync_scoped [of "[?a]" False "[(''local:/a'', ''c'', EntryObject, 5)]" None]
    by (simp add: MaxChangesBeforeFallback_def)
  from t h2 have c2: "watchers (RestoreChanges (ex_service [?b]) ''local:/a'' [?a]) ''local:/a'' =
      Some (ex_watcher ''local:/a'' [?a, ?b])"
    by (simp add: ex_watcher_def)
  from t' h3 have "\<exists>w0 d'. watchers (ex_service [?a]) (remoteKey (From (taskProfile ''push'' ex_profile))) = Some w0 \<and>
         svc ?S = Some d' \<and>
         watchers d' (remoteKey (From (taskProfile ''push'' ex_profile))) =
           Some (w0\<lparr>changes := changes w0 @
             arrivedFor (remoteKey (From (taskProfile ''push'' ex_profile))) (arrived ?env)\<rparr>)"
    by blast
  then have c3: "\<exists>d'. svc ?S = Some d' \<and>
      watchers d' ''local:/a'' = Some (ex_watcher ''local:/a'' [?a, detected ''c'' EntryObject 5])"
    by (auto simp: ex_service_src ex_keys taskProfile_def ex_env_sel arrivedFor_def ex_watcher_def)
  from t0 ex_runOps have c0: "mset [?a, ?a, ?b] + mset (changes (ex_watcher ''local:/a'' [])) =
      mset (changes (ex_watcher ''local:/a'' [])) + mset [?a, ?b] + mset [?a]"
    by simp
  from ex_runOps h2 h3 c2 c3 c0 show ?thesis
    by simp
qed

subsection \<open>The scoped filter\<close>

text \<open>
  The entry kind that the first buffered change of a path records, if the path has
  changed at all. \<open>fileRules\<close> and \<open>dirRules\<close> are the include rules that
  \<^verbatim>\<open>applyScopeFilter\<close> adds for the paths not yet seen.
\<close>

definition firstKind :: "FileChange list \<Rightarrow> string \<Rightarrow> fs_EntryType option" where
  "firstKind cs p = map_of (map (\<lambda>c. (Path c, EntryType c)) cs) p"

lemma firstKind_Cons:
  "firstKind (c # cs) p = (if p = Path c then Some (EntryType c) else firstKind cs p)"
  by (simp add: firstKind_def)

definition fileRules :: "string list \<Rightarrow> FileChange list \<Rightarrow> string set" where
  "fileRules seen cs = (\<lambda>p. ''/'' @ p) ` (Path ` set cs - set seen)"

definition dirRules :: "string list \<Rightarrow> FileChange list \<Rightarrow> string set" where
  "dirRules seen cs =
     (\<lambda>p. ''/'' @ p @ ''/**'') ` {p. p \<notin> set seen \<and> firstKind cs p = Some EntryDirectory}"

lemma fileRules_seen: "Path c \<in> set seen \<Longrightarrow> fileRules seen (c # cs) = fileRules seen cs"
  by (auto simp: fileRules_def)

lemma fileRules_new:
  "Path c \<notin> set seen \<Longrightarrow>
   fileRules seen (c # cs) = insert (''/'' @ Path c) (fileRules (Path c # seen) cs)"
  by (auto simp: fileRules_def)

lemma dirRules_seen: "Path c \<in> set seen \<Longrightarrow> dirRules seen (c # cs) = dirRules seen cs"
proof -
  assume a: "Path c \<in> set seen"
  have "{p. p \<notin> set seen \<and> firstKind (c # cs) p = Some EntryDirectory} =
        {p. p \<notin> set seen \<and> firstKind cs p = Some EntryDirectory}"
    using a by (auto simp: firstKind_Cons)
  then show ?thesis by (simp add: dirRules_def)
qed

lemma dirRules_new:
  assumes "Path c \<notin> set seen"
  shows "dirRules seen (c # cs) =
     (if EntryType c = EntryDirectory then {''/'' @ Path c @ ''/**''} else {}) \<union>
     dirRules (Path c # seen) cs"
proof -
  have "{p. p \<notin> set seen \<and> firstKind (c # cs) p = Some EntryDirectory} =
        (if EntryType c = EntryDirectory then {Path c} else {}) \<union>
        {p. p \<notin> set (Path c # seen) \<and> firstKind cs p = Some EntryDirectory}"
    using assms by (auto simp: firstKind_Cons)
  then show ?thesis by (simp add: dirRules_def)
qed

lemma scopeIncludes_set:
  "set (scopeIncludes seen rules cs) = set rules \<union> fileRules seen cs \<union> dirRules seen cs"
proof (induction cs arbitrary: seen rules)
  case Nil
  show ?case by (simp add: firstKind_def fileRules_def dirRules_def)
next
  case (Cons c cs)
  show ?case
  proof (cases "Path c \<in> set seen")
    case True
    then show ?thesis
      by (simp add: Cons.IH fileRules_seen dirRules_seen)
  next
    case False
    then show ?thesis
      by (simp add: Cons.IH fileRules_new dirRules_new Let_def Un_ac insert_commute)
  qed
qed

lemma syncDelta_full_eq:
  assumes w: "watchers d (remoteKey (From profile)) = Some w" and r: "IsRunning w"
    and ne: "changes w \<noteq> []"
    and nsc: "length (changes w) \<ge> MaxChangesBeforeFallback \<or>
             applyScopeFilter (newFilter env) ctx (changes w) = None"
  shows "run (syncDelta env profile srcFs dstFs ctx outStatus (Some d)) = RanFull ctx"
  using ShouldSkipSync_changes [OF w ne, of "nowSrc env"] ne nsc
  by (auto simp: syncDelta_def Let_def GetChanges_running [OF w r] split: prod.splits)

lemma scopeFilterOpt_rules:
  "IncludeRule (scopeFilterOpt ctx cs) = scopeIncludes [] (IncludeRule (CopyFilterOpt ctx)) cs"
  "ExcludeRule (scopeFilterOpt ctx cs) = ExcludeRule (CopyFilterOpt ctx) @ [''**'']"
  by (simp_all add: scopeFilterOpt_def Let_def)

text \<open>
  C2 (amended). Let the setup of \<^verbatim>\<open>Sync\<close> succeed and the source watcher be running
  with a non-empty buffer (so the sync is not skipped). With fewer than 5000 changes, and
  when rclone compiles the scoped filter options, the sync runs under the scoped filter:
  its include rules contain \<^verbatim>\<open>/p\<close> for every changed path \<open>p\<close> and \<^verbatim>\<open>/p/**\<close> for
  every path whose first buffered change is a directory, and its exclude rules are the
  context's followed by \<^verbatim>\<open>**\<close> last. With 5000 changes or more, or when the scoped
  options do not compile, the sync runs in full under the unchanged context.
\<close>

theorem scoped_sync_filter:
  "syncSetup env ctx0 task prof = Inr (profile, srcFs, dstFs, ctx) \<and>
   watchers d (remoteKey (From profile)) = Some w \<and> IsRunning w \<and> changes w \<noteq> [] \<longrightarrow>
   (length (changes w) < 5000 \<and> newFilter env (scopeFilterOpt ctx (changes w)) \<longrightarrow>
      run (Sync env ctx0 task prof outStatus (Some d)) =
        RanScoped (ReplaceConfig ctx (scopeFilterOpt ctx (changes w))) \<and>
      (\<forall>c \<in> set (changes w).
         ''/'' @ Path c \<in> set (IncludeRule (scopeFilterOpt ctx (changes w)))) \<and>
      (\<forall>p. firstKind (changes w) p = Some EntryDirectory \<longrightarrow>
         ''/'' @ p @ ''/**'' \<in> set (IncludeRule (scopeFilterOpt ctx (changes w)))) \<and>
      ExcludeRule (scopeFilterOpt ctx (changes w)) = ExcludeRule (CopyFilterOpt ctx) @ [''**'']) \<and>
   (5000 \<le> length (changes w) \<or> \<not> newFilter env (scopeFilterOpt ctx (changes w)) \<longrightarrow>
      run (Sync env ctx0 task prof outStatus (Some d)) = RanFull ctx)"
proof (intro impI)
  assume a: "syncSetup env ctx0 task prof = Inr (profile, srcFs, dstFs, ctx) \<and>
    watchers d (remoteKey (From profile)) = Some w \<and> IsRunning w \<and> changes w \<noteq> []"
  then have w: "watchers d (remoteKey (From profile)) = Some w" and r: "IsRunning w"
    and ne: "changes w \<noteq> []"
    by simp_all
  from a have eq: "Sync env ctx0 task prof outStatus (Some d) =
      syncDelta env profile srcFs dstFs ctx outStatus (Some d)"
    by (simp add: Sync_def)
  let ?opt = "scopeFilterOpt ctx (changes w)"
  have scoped: "run (Sync env ctx0 task prof outStatus (Some d)) = RanScoped (ReplaceConfig ctx ?opt)"
    if lt: "length (changes w) < 5000" and ok: "newFilter env ?opt"
  proof -
    have sc: "applyScopeFilter (newFilter env) ctx (changes w) = Some (ReplaceConfig ctx ?opt)"
      using ok by (simp add: applyScopeFilter_def)
    from lt have lt': "length (changes w) < MaxChangesBeforeFallback"
      by (simp add: MaxChangesBeforeFallback_def)
    show ?thesis
      by (simp add: eq syncDelta_scoped_eq [OF w r ne lt' sc] Let_def)
  qed
  have files: "\<forall>c \<in> set (changes w). ''/'' @ Path c \<in> set (IncludeRule ?opt)"
    by (simp add: scopeFilterOpt_rules scopeIncludes_set fileRules_def)
  have dirs: "\<forall>p. firstKind (changes w) p = Some EntryDirectory \<longrightarrow>
         ''/'' @ p @ ''/**'' \<in> set (IncludeRule ?opt)"
    by (simp add: scopeFilterOpt_rules scopeIncludes_set dirRules_def)
  have excl: "ExcludeRule ?opt = ExcludeRule (CopyFilterOpt ctx) @ [''**'']"
    by (simp add: scopeFilterOpt_rules)
  have full: "run (Sync env ctx0 task prof outStatus (Some d)) = RanFull ctx"
    if "5000 \<le> length (changes w) \<or> \<not> newFilter env ?opt"
  proof -
    from that have nsc: "length (changes w) \<ge> MaxChangesBeforeFallback \<or>
             applyScopeFilter (newFilter env) ctx (changes w) = None"
      by (auto simp: MaxChangesBeforeFallback_def applyScopeFilter_def)
    show ?thesis
      by (simp add: eq syncDelta_full_eq [OF w r ne nsc])
  qed
  from scoped files dirs excl full
  show "(length (changes w) < 5000 \<and> newFilter env ?opt \<longrightarrow>
      run (Sync env ctx0 task prof outStatus (Some d)) = RanScoped (ReplaceConfig ctx ?opt) \<and>
      (\<forall>c \<in> set (changes w). ''/'' @ Path c \<in> set (IncludeRule ?opt)) \<and>
      (\<forall>p. firstKind (changes w) p = Some EntryDirectory \<longrightarrow>
         ''/'' @ p @ ''/**'' \<in> set (IncludeRule ?opt)) \<and>
      ExcludeRule ?opt = ExcludeRule (CopyFilterOpt ctx) @ [''**'']) \<and>
   (5000 \<le> length (changes w) \<or> \<not> newFilter env ?opt \<longrightarrow>
      run (Sync env ctx0 task prof outStatus (Some d)) = RanFull ctx)"
    by blast
qed

theorem scoped_sync_filter_witness:
  "syncSetup (ex_env True []) ex_ctx ''push'' ex_profile = Inr (ex_profile, ex_fs, ex_fs, ex_ctx) \<and>
   watchers (ex_service [detected ''docs'' EntryDirectory 1, detected ''notes.md'' EntryObject 2])
     (remoteKey (From ex_profile)) =
     Some (ex_watcher ''local:/a'' [detected ''docs'' EntryDirectory 1, detected ''notes.md'' EntryObject 2]) \<and>
   run (Sync (ex_env True []) ex_ctx ''push'' ex_profile None
          (Some (ex_service [detected ''docs'' EntryDirectory 1, detected ''notes.md'' EntryObject 2]))) =
     RanScoped \<lparr>ctxFilter =
       \<lparr>IncludeRule = [''/docs/**'', ''/docs'', ''/notes.md''], ExcludeRule = [''**'']\<rparr>\<rparr> \<and>
   length (changes (ex_watcher ''local:/a'' (replicate 5000 (detected ''x'' EntryObject 1)))) = 5000 \<and>
   run (Sync (ex_env True []) ex_ctx ''push'' ex_profile None
          (Some (ex_service (replicate 5000 (detected ''x'' EntryObject 1))))) = RanFull ex_ctx"
proof -
  let ?cs = "[detected ''docs'' EntryDirectory 1, detected ''notes.md'' EntryObject 2]"
  let ?big = "replicate 5000 (detected ''x'' EntryObject 1)"
  have opt: "scopeFilterOpt ex_ctx ?cs =
      \<lparr>IncludeRule = [''/docs/**'', ''/docs'', ''/notes.md''], ExcludeRule = [''**'']\<rparr>"
    by (simp add: scopeFilterOpt_def ex_ctx_def CopyFilterOpt_def detected_def)
  have big: "length (changes (ex_watcher ''local:/a'' ?big)) = 5000"
    by (simp add: ex_service_src)
  from scoped_sync_filter [where env = "ex_env True []" and ?ctx0.0 = ex_ctx and task = "''push''"
      and prof = ex_profile and profile = ex_profile and srcFs = ex_fs and dstFs = ex_fs
      and ctx = ex_ctx and d = "ex_service ?cs" and w = "ex_watcher ''local:/a'' ?cs"
      and outStatus = None]
  have "run (Sync (ex_env True []) ex_ctx ''push'' ex_profile None (Some (ex_service ?cs))) =
      RanScoped (ReplaceConfig ex_ctx (scopeFilterOpt ex_ctx ?cs))"
    by (simp add: ex_setup ex_keys ex_service_src ex_env_sel)
  then have c1: "run (Sync (ex_env True []) ex_ctx ''push'' ex_profile None (Some (ex_service ?cs))) =
      RanScoped \<lparr>ctxFilter =
       \<lparr>IncludeRule = [''/docs/**'', ''/docs'', ''/notes.md''], ExcludeRule = [''**'']\<rparr>\<rparr>"
    by (simp add: opt ReplaceConfig_def)
  from scoped_sync_filter [where env = "ex_env True []" and ?ctx0.0 = ex_ctx and task = "''push''"
      and prof = ex_profile and profile = ex_profile and srcFs = ex_fs and dstFs = ex_fs
      and ctx = ex_ctx and d = "ex_service ?big" and w = "ex_watcher ''local:/a'' ?big"
      and outStatus = None] big
  have c2: "run (Sync (ex_env True []) ex_ctx ''push'' ex_profile None (Some (ex_service ?big))) =
      RanFull ex_ctx"
    by (simp add: ex_setup ex_keys ex_service_src)
  from c1 c2 big show ?thesis
    by (simp add: ex_setup ex_keys ex_service_src)
qed

text \<open>
  The claim as first stated asks for \<^verbatim>\<open>/p/**\<close> whenever a change records \<open>p\<close> as a
  directory. A path reported first as a file and then as a directory is handled once, as
  a file: the scoped sync runs and its filter has no \<^verbatim>\<open>/d/**\<close>.
\<close>

theorem scoped_sync_filter_counterexample:
  "EntryType (detected ''d'' EntryDirectory 2) = EntryDirectory \<and>
   run (Sync (ex_env True []) ex_ctx ''push'' ex_profile None
          (Some (ex_service [detected ''d'' EntryObject 1, detected ''d'' EntryDirectory 2]))) =
     RanScoped \<lparr>ctxFilter = \<lparr>IncludeRule = [''/d''], ExcludeRule = [''**'']\<rparr>\<rparr> \<and>
   ''/d/**'' \<notin> set [''/d'']"
proof -
  let ?cs = "[detected ''d'' EntryObject 1, detected ''d'' EntryDirectory 2]"
  have opt: "scopeFilterOpt ex_ctx ?cs = \<lparr>IncludeRule = [''/d''], ExcludeRule = [''**'']\<rparr>"
    by (simp add: scopeFilterOpt_def ex_ctx_def CopyFilterOpt_def detected_def)
  from ex_sync_scoped(1) [of ?cs True "[]" None]
  have "run (Sync (ex_env True []) ex_ctx ''push'' ex_profile None (Some (ex_service ?cs))) =
      RanScoped (ReplaceConfig ex_ctx (scopeFilterOpt ex_ctx ?cs))"
    by (simp add: MaxChangesBeforeFallback_def)
  then have "run (Sync (ex_env True []) ex_ctx ''push'' ex_profile None (Some (ex_service ?cs))) =
      RanScoped \<lparr>ctxFilter = \<lparr>IncludeRule = [''/d''], ExcludeRule = [''**'']\<rparr>\<rparr>"
    by (simp add: opt ReplaceConfig_def)
  then show ?thesis
    by (simp add: detected_def)
qed

subsection \<open>Keys\<close>









lemma ex_sync_skipped_service:
  "svc (Sync (ex_env ok evs) ex_ctx ''push'' ex_profile (Some ex_chan) (Some (ex_service []))) =
     Some (CommitDelta (CommitDelta (ex_service []) ''local:/a'' hour) ''gdrive:/a'' hour)"
  using ex_skip_src ex_skip_dst [of "[]"]
  by (simp add: Sync_def ex_setup syncDelta_def ex_keys sendSkippedStatus_def trySend_def
        ex_chan_def ex_env_sel)









section \<open>Progress samples (utils/rclone_progress.go)\<close>

text \<open>
  What \<^verbatim>\<open>createStatusFromStats\<close> reads of rclone's accounting. \<^verbatim>\<open>RemoteStats\<close> is a
  map read through type assertions: a field is \<open>None\<close> when its key is absent (or nil, for
  the two lists) or holds a value of another type. An entry of the \<^verbatim>\<open>transferring\<close>
  list is such a map too. \<^verbatim>\<open>Transferred\<close> is the list of finished transfers.
\<close>

record rcTransfer =
  tr_name :: "string option"
  tr_size :: "int option"
  tr_bytes :: "int option"

record RemoteStats =
  rs_totalTransfers :: "int option"
  rs_totalBytes :: "int option"
  rs_transfers :: "int option"
  rs_bytes :: "int option"
  rs_errors :: "int option"
  rs_checks :: "int option"
  rs_totalChecks :: "int option"
  rs_deletes :: "int option"
  rs_renames :: "int option"
  rs_transferring :: "rcTransfer list option"
  rs_checking :: "string list option"

record TransferSnapshot =
  sn_Name :: string
  sn_Size :: int
  sn_Bytes :: int
  sn_Error :: "string option"
  sn_Checked :: bool

record Stats =
  remoteStats :: "RemoteStats option"
  Transferred :: "TransferSnapshot list"
  GetTransfers :: int
  GetBytes :: int
  GetErrors :: int
  GetChecks :: int
  GetDeletes :: int

definition maxLogMessagesPerStatus :: nat where
  "maxLogMessagesPerStatus = 50"

definition orZero :: "int option \<Rightarrow> int" where
  "orZero v = (case v of Some n \<Rightarrow> n | None \<Rightarrow> 0)"

definition orEmpty :: "string option \<Rightarrow> string" where
  "orEmpty v = (case v of Some n \<Rightarrow> n | None \<Rightarrow> [])"

text \<open>The per-file list: transfers in progress, checks in progress, finished transfers.\<close>

definition transferringEntry :: "rcTransfer \<Rightarrow> FileTransferInfo" where
  "transferringEntry tr =
     \<lparr>ft_Name = orEmpty (tr_name tr), ft_Size = orZero (tr_size tr),
      ft_Bytes = orZero (tr_bytes tr), ft_Status = ''transferring'', ft_Error = []\<rparr>"

definition checkingEntry :: "string \<Rightarrow> FileTransferInfo" where
  "checkingEntry name =
     \<lparr>ft_Name = name, ft_Size = 0, ft_Bytes = 0, ft_Status = ''checking'', ft_Error = []\<rparr>"

definition transferredEntry :: "TransferSnapshot \<Rightarrow> FileTransferInfo" where
  "transferredEntry tr =
     \<lparr>ft_Name = sn_Name tr, ft_Size = sn_Size tr, ft_Bytes = sn_Bytes tr,
      ft_Status = (if sn_Error tr \<noteq> None then ''failed''
                   else if sn_Checked tr then ''checked'' else ''completed''),
      ft_Error = orEmpty (sn_Error tr)\<rparr>"

text \<open>
  The loop that derives the error and check counts from the list, as a fold over the pair
  \<open>(errCount, checkCount)\<close>.
\<close>

definition countStep :: "int \<times> int \<Rightarrow> FileTransferInfo \<Rightarrow> int \<times> int" where
  "countStep acc ft =
     (if ft_Status ft = ''failed'' then (fst acc + 1, snd acc)
      else if ft_Status ft = ''checked'' \<or> ft_Status ft = ''checking'' then (fst acc, snd acc + 1)
      else acc)"

text \<open>
  \<open>progressDone\<close> is the outcome of the floating-point comparison
  \<^verbatim>\<open>syncStatus.Progress >= 100.0\<close>. The second result is the set of names being checked.
\<close>

definition createStatusFromStats ::
  "Stats \<Rightarrow> bool \<Rightarrow> string list \<Rightarrow> SyncStatusDTO \<times> string set" where
  "createStatusFromStats stats progressDone logMessages =
     (let s0 = emptyStatus\<lparr>Command := ''sync_status'', Status := ''running''\<rparr>;
          currentlyChecking =
            (case remoteStats stats of
               None \<Rightarrow> {}
             | Some rs \<Rightarrow> (case rs_checking rs of None \<Rightarrow> {} | Some names \<Rightarrow> set names));
          s1 = (case remoteStats stats of
             Some rs \<Rightarrow>
               s0\<lparr>TotalFiles := orZero (rs_totalTransfers rs), TotalBytes := orZero (rs_totalBytes rs),
                  FilesTransferred := orZero (rs_transfers rs), BytesTransferred := orZero (rs_bytes rs),
                  Errors := orZero (rs_errors rs), Checks := orZero (rs_checks rs),
                  TotalChecks := orZero (rs_totalChecks rs), Deletes := orZero (rs_deletes rs),
                  Renames := orZero (rs_renames rs),
                  Transfers :=
                    (case rs_transferring rs of None \<Rightarrow> [] | Some trs \<Rightarrow> map transferringEntry trs) @
                    (case rs_checking rs of None \<Rightarrow> [] | Some names \<Rightarrow> map checkingEntry names) @
                    map transferredEntry (Transferred stats)\<rparr>
           | None \<Rightarrow>
               s0\<lparr>FilesTransferred := GetTransfers stats, BytesTransferred := GetBytes stats,
                  Errors := GetErrors stats, Checks := GetChecks stats,
                  Deletes := GetDeletes stats\<rparr>);
          s2 = s1\<lparr>Status := (if GetErrors stats > 0 then ''error''
                              else if progressDone then ''completed'' else ''running'')\<rparr>;
          s3 = (if length (Transfers s2) > 0
                then (let counts = foldl countStep (0, 0) (Transfers s2)
                      in s2\<lparr>Errors := fst counts, Checks := snd counts\<rparr>)
                else s2);
          logMessages1 = (if length logMessages > maxLogMessagesPerStatus
                          then drop (length logMessages - maxLogMessagesPerStatus) logMessages
                          else logMessages);
          s4 = (if length logMessages1 > 0 then s3\<lparr>LogMessages := logMessages1\<rparr> else s3)
      in (s4, currentlyChecking))"

subsection \<open>Log lines\<close>

text \<open>
  \<^verbatim>\<open>extractLogContent\<close> strips every leading \<^verbatim>\<open>[...]\<close> prefix that is followed by a
  blank, then everything up to and including the last occurrence of the first log level
  tag that occurs, and trims the rest. \<^verbatim>\<open>strings.TrimSpace\<close>, which removes leading and
  trailing Unicode white space, is the parameter \<open>trimSpace\<close>.
\<close>

function stripBrackets :: "string \<Rightarrow> string" where
  "stripBrackets msg =
     (if strings_HasPrefix msg ''[''
      then (let idx = strings_Index msg ''] ''
            in if idx \<noteq> -1 then stripBrackets (drop (nat (idx + 2)) msg) else msg)
      else msg)"
  by pat_completeness auto
termination
proof (relation "measure length")
  show "wf (measure length)"
    by simp
next
  fix msg :: string and idx :: int
  assume "strings_HasPrefix msg ''[''" and idx: "idx = strings_Index msg ''] ''" and "idx \<noteq> -1"
  then have "msg \<noteq> []" and "0 \<le> idx"
    using strings_Index_nonneg [of msg "''] ''"] by (auto simp: strings_HasPrefix_def)
  then show "(drop (nat (idx + 2)) msg, msg) \<in> measure length"
    by (cases msg) auto
qed

declare stripBrackets.simps [simp del]

definition logLevelTags :: "string list" where
  "logLevelTags = [''NOTICE:'', ''INFO  :'', ''DEBUG :'', ''ERROR :'', ''WARNING:'']"

fun stripLevel :: "string list \<Rightarrow> string \<Rightarrow> string" where
  "stripLevel [] msg = msg"
| "stripLevel (tag # tags) msg =
     (let idx = strings_LastIndex msg tag
      in if idx \<noteq> -1 then drop (nat (idx + int (length tag))) msg
         else stripLevel tags msg)"

definition extractLogContent :: "(string \<Rightarrow> string) \<Rightarrow> string \<Rightarrow> string" where
  "extractLogContent trimSpace message = trimSpace (stripLevel logLevelTags (stripBrackets message))"


subsection \<open>The hooks of rclone\<close>

text \<open>
  rclone's log handler \<^verbatim>\<open>fslog.Handler\<close> keeps two lists of callbacks: \<^verbatim>\<open>output\<close>,
  to which \<^verbatim>\<open>SetOutput\<close> appends a temporary override and from which \<^verbatim>\<open>ResetOutput\<close>
  takes the last one away, and \<^verbatim>\<open>outputExtra\<close>, to which \<^verbatim>\<open>AddOutput\<close> appends an
  additional destination. A callback is the one that \<^verbatim>\<open>startProgress\<close> installs, or one
  of other code. \<^verbatim>\<open>operations.SyncPrintf\<close> is a variable that holds one print function.
  The two lists are the fields \<open>h_output\<close> and \<open>h_outputExtra\<close>.
\<close>

datatype log_callback = ProgressOutput | OtherOutput nat

record LogHandler =
  h_output :: "log_callback list"
  h_outputExtra :: "log_callback list"



datatype print_function = ProgressPrintf | OtherPrintf nat

subsection \<open>Starting and stopping\<close>

text \<open>
  What \<^verbatim>\<open>startProgress\<close> sets up and its cleanup function tears down: the closed flag,
  the accumulated log lines, the print function that was installed before, the two
  variables of the sampler goroutine, and the caller's status channel; with them the two
  globals of rclone that it changes. The callbacks, the ticks of the sampler and the
  cleanup are taken one at a time.
\<close>

record ProgressState =
  isClosed :: bool
  logAccum :: "string list"
  oldSyncPrint :: print_function
  prevChecking :: "string set"
  completedChecks :: "FileTransferInfo list"
  ps_outStatus :: "Chan option"
  Handler :: LogHandler
  SyncPrintf :: print_function



definition drainLogs :: "ProgressState \<Rightarrow> string list \<times> ProgressState" where
  "drainLogs st = (logAccum st, st\<lparr>logAccum := []\<rparr>)"

definition safeSend :: "ProgressState \<Rightarrow> SyncStatusDTO \<Rightarrow> panic + (bool \<times> ProgressState)" where
  "safeSend st status =
     (if isClosed st then Inr (False, st)
      else case trySend (ps_outStatus st) status of
        Inl p \<Rightarrow> Inl p
      | Inr (sent, ch) \<Rightarrow> Inr (sent, st\<lparr>ps_outStatus := ch\<rparr>))"





text \<open>
  One tick of the sampler goroutine. A name that was being checked at the last tick and
  is no longer is remembered as a completed check; the last 100 of them are kept, and
  those whose name the sample does not list yet are added to its list. Go ranges over a
  map in an order of its choosing: \<open>rangeOrder\<close> gives that order for a set of names.
\<close>

definition maxCompletedChecks :: nat where
  "maxCompletedChecks = 100"

definition completedCheck :: "string \<Rightarrow> FileTransferInfo" where
  "completedCheck name =
     \<lparr>ft_Name = name, ft_Size = 0, ft_Bytes = 0, ft_Status = ''checked'', ft_Error = []\<rparr>"

definition tick ::
  "(string set \<Rightarrow> string list) \<Rightarrow> Stats \<Rightarrow> bool \<Rightarrow> ProgressState \<Rightarrow> panic + ProgressState" where
  "tick rangeOrder stats progressDone st =
     (if isClosed st then Inr st
      else
        (let (msgs, st1) = drainLogs st;
             (status, curChecking) = createStatusFromStats stats progressDone msgs;
             completed1 = completedChecks st1 @
               map completedCheck
                 (filter (\<lambda>name. name \<notin> curChecking) (rangeOrder (prevChecking st1)));
             completed2 = (if length completed1 > maxCompletedChecks
                           then drop (length completed1 - maxCompletedChecks) completed1
                           else completed1);
             existingNames = set (map ft_Name (Transfers status));
             status1 = status\<lparr>Transfers := Transfers status @
               filter (\<lambda>cc. ft_Name cc \<notin> existingNames) completed2\<rparr>;
             st2 = st1\<lparr>prevChecking := curChecking, completedChecks := completed2\<rparr>
         in case safeSend st2 status1 of
              Inl p \<Rightarrow> Inl p
            | Inr (sent, st3) \<Rightarrow> Inr st3))"


section \<open>Properties of the progress samples\<close>

subsection \<open>Counts and the transfer list\<close>

lemma foldl_countStep:
  "foldl countStep (e, c) ts =
     (e + int (length (filter (\<lambda>t. ft_Status t = ''failed'') ts)),
      c + int (length (filter (\<lambda>t. ft_Status t = ''checked'' \<or> ft_Status t = ''checking'') ts)))"
proof (induction ts arbitrary: e c)
  case Nil
  show ?case by simp
next
  case (Cons t ts)
  have "countStep (e, c) t =
      (e + (if ft_Status t = ''failed'' then 1 else 0),
       c + (if ft_Status t = ''checked'' \<or> ft_Status t = ''checking'' then 1 else 0))"
    by (simp add: countStep_def)
  then show ?case
    by (simp add: Cons.IH)
qed

text \<open>
  The error and check counters as rclone reports them, and the per-file list that
  \<^verbatim>\<open>createStatusFromStats\<close> composes.
\<close>

definition rawErrors :: "Stats \<Rightarrow> int" where
  "rawErrors stats =
     (case remoteStats stats of None \<Rightarrow> GetErrors stats | Some rs \<Rightarrow> orZero (rs_errors rs))"

definition rawChecks :: "Stats \<Rightarrow> int" where
  "rawChecks stats =
     (case remoteStats stats of None \<Rightarrow> GetChecks stats | Some rs \<Rightarrow> orZero (rs_checks rs))"

definition composed :: "Stats \<Rightarrow> FileTransferInfo list" where
  "composed stats =
     (case remoteStats stats of
        None \<Rightarrow> []
      | Some rs \<Rightarrow>
          (case rs_transferring rs of None \<Rightarrow> [] | Some trs \<Rightarrow> map transferringEntry trs) @
          (case rs_checking rs of None \<Rightarrow> [] | Some names \<Rightarrow> map checkingEntry names) @
          map transferredEntry (Transferred stats))"

lemma created_Transfers:
  "Transfers (fst (createStatusFromStats stats progressDone logMessages)) = composed stats"
  by (cases "remoteStats stats")
     (simp_all add: createStatusFromStats_def Let_def composed_def emptyStatus_def)

lemma created_counts:
  "Errors (fst (createStatusFromStats stats progressDone logMessages)) =
     (if composed stats \<noteq> [] then fst (foldl countStep (0, 0) (composed stats))
      else rawErrors stats)"
  "Checks (fst (createStatusFromStats stats progressDone logMessages)) =
     (if composed stats \<noteq> [] then snd (foldl countStep (0, 0) (composed stats))
      else rawChecks stats)"
  by (cases "remoteStats stats";
      simp add: createStatusFromStats_def Let_def composed_def emptyStatus_def
        rawErrors_def rawChecks_def)+

text \<open>
  C7 (amended). In every sample that \<^verbatim>\<open>createStatusFromStats\<close> builds with a non-empty
  transfer list, the errors field is the number of entries whose status is failed and the
  checks field is the number of entries whose status is checked or checking. When the
  list is empty, the two fields keep the counters that rclone's accounting reports.
\<close>

theorem counts_match_transfer_list:
  "(Transfers (fst (createStatusFromStats stats progressDone logMessages)) \<noteq> [] \<longrightarrow>
      Errors (fst (createStatusFromStats stats progressDone logMessages)) =
        int (length (filter (\<lambda>t. ft_Status t = ''failed'')
          (Transfers (fst (createStatusFromStats stats progressDone logMessages))))) \<and>
      Checks (fst (createStatusFromStats stats progressDone logMessages)) =
        int (length (filter (\<lambda>t. ft_Status t = ''checked'' \<or> ft_Status t = ''checking'')
          (Transfers (fst (createStatusFromStats stats progressDone logMessages)))))) \<and>
   (Transfers (fst (createStatusFromStats stats progressDone logMessages)) = [] \<longrightarrow>
      Errors (fst (createStatusFromStats stats progressDone logMessages)) = rawErrors stats \<and>
      Checks (fst (createStatusFromStats stats progressDone logMessages)) = rawChecks stats)"
  by (simp add: created_Transfers created_counts foldl_countStep)

text \<open>
  Two accounting snapshots: one with errors and checks counted by rclone and no file
  listed, one with a file in each status.
\<close>

definition noRemoteStats :: RemoteStats where
  "noRemoteStats =
     \<lparr>rs_totalTransfers = None, rs_totalBytes = None, rs_transfers = None, rs_bytes = None,
      rs_errors = None, rs_checks = None, rs_totalChecks = None, rs_deletes = None,
      rs_renames = None, rs_transferring = None, rs_checking = None\<rparr>"

definition ex_stats_listing_errors :: Stats where
  "ex_stats_listing_errors =
     \<lparr>remoteStats = Some (noRemoteStats\<lparr>rs_errors := Some 3, rs_checks := Some 7\<rparr>),
      Transferred = [], GetTransfers = 0, GetBytes = 0, GetErrors = 3, GetChecks = 7,
      GetDeletes = 0\<rparr>"

definition ex_stats_files :: Stats where
  "ex_stats_files =
     \<lparr>remoteStats = Some (noRemoteStats\<lparr>rs_errors := Some 5, rs_checks := Some 9,
        rs_transferring := Some [\<lparr>tr_name = Some ''t'', tr_size = Some 10, tr_bytes = Some 4\<rparr>],
        rs_checking := Some [''c'']\<rparr>),
      Transferred =
        [\<lparr>sn_Name = ''f'', sn_Size = 1, sn_Bytes = 0, sn_Error = Some ''denied'', sn_Checked = False\<rparr>,
         \<lparr>sn_Name = ''k'', sn_Size = 1, sn_Bytes = 0, sn_Error = None, sn_Checked = True\<rparr>,
         \<lparr>sn_Name = ''d'', sn_Size = 1, sn_Bytes = 1, sn_Error = None, sn_Checked = False\<rparr>],
      GetTransfers = 1, GetBytes = 1, GetErrors = 5, GetChecks = 9, GetDeletes = 0\<rparr>"

lemma ex_composed:
  "composed ex_stats_listing_errors = []"
  "map ft_Status (composed ex_stats_files) =
     [''transferring'', ''checking'', ''failed'', ''checked'', ''completed'']"
  by (simp_all add: composed_def ex_stats_listing_errors_def ex_stats_files_def noRemoteStats_def
        transferringEntry_def checkingEntry_def transferredEntry_def)

theorem counts_match_transfer_list_witness:
  "Transfers (fst (createStatusFromStats ex_stats_files False [])) \<noteq> [] \<and>
   Errors (fst (createStatusFromStats ex_stats_files False [])) = 1 \<and>
   Checks (fst (createStatusFromStats ex_stats_files False [])) = 2 \<and>
   Transfers (fst (createStatusFromStats ex_stats_listing_errors False [])) = [] \<and>
   Errors (fst (createStatusFromStats ex_stats_listing_errors False [])) = 3 \<and>
   Checks (fst (createStatusFromStats ex_stats_listing_errors False [])) = 7"
proof -
  have f: "length (filter (\<lambda>t. ft_Status t = ''failed'') (composed ex_stats_files)) = 1"
    "length (filter (\<lambda>t. ft_Status t = ''checked'' \<or> ft_Status t = ''checking'')
       (composed ex_stats_files)) = 2"
    by (simp_all add: composed_def ex_stats_files_def noRemoteStats_def
        transferringEntry_def checkingEntry_def transferredEntry_def)
  have n: "composed ex_stats_files \<noteq> []"
    using ex_composed(2) by auto
  have r: "rawErrors ex_stats_listing_errors = 3" "rawChecks ex_stats_listing_errors = 7"
    by (simp_all add: rawErrors_def rawChecks_def ex_stats_listing_errors_def noRemoteStats_def
          orZero_def)
  from counts_match_transfer_list [of ex_stats_files False "[]"]
       counts_match_transfer_list [of ex_stats_listing_errors False "[]"]
  show ?thesis
    by (simp add: created_Transfers f n r ex_composed(1))
qed

text \<open>
  With no file listed, the sample reports rclone's three errors and seven checks, and
  shows no item.
\<close>

theorem counts_match_transfer_list_counterexample:
  "Errors (fst (createStatusFromStats ex_stats_listing_errors False [])) = 3 \<and>
   int (length (filter (\<lambda>t. ft_Status t = ''failed'')
     (Transfers (fst (createStatusFromStats ex_stats_listing_errors False []))))) = 0 \<and>
   Checks (fst (createStatusFromStats ex_stats_listing_errors False [])) = 7 \<and>
   int (length (filter (\<lambda>t. ft_Status t = ''checked'' \<or> ft_Status t = ''checking'')
     (Transfers (fst (createStatusFromStats ex_stats_listing_errors False []))))) = 0"
proof -
  have r: "rawErrors ex_stats_listing_errors = 3" "rawChecks ex_stats_listing_errors = 7"
    by (simp_all add: rawErrors_def rawChecks_def ex_stats_listing_errors_def noRemoteStats_def
          orZero_def)
  show ?thesis
    by (simp add: created_Transfers created_counts ex_composed(1) r)
qed

subsection \<open>Teardown\<close>





text \<open>
  Before that, a tick that returns has drained the log lines into its sample and
  remembers the names being checked.
\<close>

lemma tick_open:
  assumes "tick rangeOrder stats progressDone st = Inr st'" and "\<not> isClosed st"
  shows "logAccum st' = []"
    and "prevChecking st' = snd (createStatusFromStats stats progressDone (logAccum st))"
    and "isClosed st' = isClosed st" and "Handler st' = Handler st"
    and "SyncPrintf st' = SyncPrintf st"
  using assms
  by (auto simp: tick_def drainLogs_def safeSend_def trySend_def Let_def
        split: prod.splits sum.splits option.splits if_splits)


text \<open>
  A trimmer for texts whose only white space is the blank; the three log lines of the
  comment of \<^verbatim>\<open>extractLogContent\<close>.
\<close>

definition ex_trim :: "string \<Rightarrow> string" where
  "ex_trim s = rev (dropWhile (\<lambda>c. c = CHR '' '') (rev (dropWhile (\<lambda>c. c = CHR '' '') s)))"

lemma ex_extractLogContent:
  "extractLogContent ex_trim ''[task-1] 2026/02/10 20:18:46 NOTICE: actual message'' =
     ''actual message''"
  "extractLogContent ex_trim ''[task-1] 2026/02/10 20:18:46 NOTICE:'' = []"
  "extractLogContent ex_trim ''plain message'' = ''plain message''"
  by (simp_all add: extractLogContent_def stripBrackets.simps strings_HasPrefix_def
        logLevelTags_def ex_trim_def)










section \<open>The vault: cryptography (services/auth_service.go)\<close>

type_synonym bytes = "8 word list"

text \<open>
  The primitives the vault takes from libraries: Argon2id (\<^verbatim>\<open>argon2.IDKey\<close> with the fixed
  parameters, from password and salt to a 32-byte key), unpadded standard base64, and
  AES-GCM sealing and opening (key, nonce, text). They are parameters of the model.
\<close>

record Crypto =
  argon2IDKey :: "string \<Rightarrow> bytes \<Rightarrow> bytes"
  b64Encode :: "bytes \<Rightarrow> string"
  b64Decode :: "string \<Rightarrow> bytes option"
  gcmSeal :: "bytes \<Rightarrow> bytes \<Rightarrow> bytes \<Rightarrow> bytes"
  gcmOpen :: "bytes \<Rightarrow> bytes \<Rightarrow> bytes \<Rightarrow> bytes option"

datatype crypto_error =
  KeySizeError nat | NonceFailed | CiphertextTooShort | DecryptionFailed
| ReadFailed | WriteFailed

text \<open>
  \<^verbatim>\<open>aes.NewCipher\<close> accepts keys of 16, 24 or 32 bytes and returns a key-size error for any
  other length; \<^verbatim>\<open>cipher.NewGCM\<close> accepts every AES block cipher. The nonce size of GCM
  is 12.
\<close>

definition aesKeySizeOK :: "bytes \<Rightarrow> bool" where
  "aesKeySizeOK key = (length key = 16 \<or> length key = 24 \<or> length key = 32)"

definition NonceSize :: nat where
  "NonceSize = 12"

text \<open>Go's \<^verbatim>\<open>strings.Split(s, sep)\<close> for a separator of one byte.\<close>

fun splitOn :: "char \<Rightarrow> string \<Rightarrow> string list" where
  "splitOn sep [] = [[]]"
| "splitOn sep (c # cs) =
     (if c = sep then [] # splitOn sep cs
      else (case splitOn sep cs of
              [] \<Rightarrow> [[c]]
            | part # parts \<Rightarrow> (c # part) # parts))"

definition deriveKey :: "Crypto \<Rightarrow> string \<Rightarrow> bytes \<Rightarrow> bytes" where
  "deriveKey cr password salt = argon2IDKey cr password salt"


definition extractSalt :: "Crypto \<Rightarrow> string \<Rightarrow> bytes option" where
  "extractSalt cr encoded =
     (let parts = splitOn CHR ''$'' encoded
      in if length parts \<noteq> 5 then None else b64Decode cr (parts ! 3))"

definition verifyPasswordHash :: "Crypto \<Rightarrow> string \<Rightarrow> string \<Rightarrow> bool" where
  "verifyPasswordHash cr password encoded =
     (case extractSalt cr encoded of
        None \<Rightarrow> False
      | Some salt \<Rightarrow>
          (let parts = splitOn CHR ''$'' encoded
           in if length parts \<noteq> 5 then False
              else (case b64Decode cr (parts ! 4) of
                      None \<Rightarrow> False
                    | Some storedHash \<Rightarrow> storedHash = argon2IDKey cr password salt)))"

text \<open>
  \<open>nonce\<close> is what \<^verbatim>\<open>rand.Read\<close> delivers into the nonce buffer, or \<open>None\<close> when it
  fails. \<^verbatim>\<open>gcm.Seal(nonce, nonce, data, nil)\<close> appends the sealed text to the nonce.
\<close>

definition EncryptData :: "Crypto \<Rightarrow> bytes option \<Rightarrow> bytes \<Rightarrow> bytes \<Rightarrow> crypto_error + bytes" where
  "EncryptData cr nonce data key =
     (if \<not> aesKeySizeOK key then Inl (KeySizeError (length key))
      else case nonce of
        None \<Rightarrow> Inl NonceFailed
      | Some n \<Rightarrow> Inr (n @ gcmSeal cr key n data))"

definition DecryptData :: "Crypto \<Rightarrow> bytes \<Rightarrow> bytes \<Rightarrow> crypto_error + bytes" where
  "DecryptData cr ciphertext key =
     (if \<not> aesKeySizeOK key then Inl (KeySizeError (length key))
      else if length ciphertext < NonceSize then Inl CiphertextTooShort
      else (case gcmOpen cr key (take NonceSize ciphertext) (drop NonceSize ciphertext) of
              None \<Rightarrow> Inl DecryptionFailed
            | Some plaintext \<Rightarrow> Inr plaintext))"

section \<open>The vault: files\<close>

text \<open>
  The configuration directory maps file names to contents. What the operating system
  does to one call of \<^verbatim>\<open>encryptConfigFiles\<close> or \<^verbatim>\<open>decryptConfigFiles\<close>: which reads
  fail, how each write ends, and the nonce that \<^verbatim>\<open>rand.Read\<close> delivers for each file.
  A write (\<^verbatim>\<open>os.WriteFile\<close>) succeeds, fails before the file is opened, or fails after
  some of the bytes were written. \<^verbatim>\<open>os.Remove\<close>, whose error the code ignores, is taken
  to remove the file.
\<close>

type_synonym FileSystem = "string \<rightharpoonup> bytes"

datatype write_outcome = WriteOk | OpenFails | WriteStopsAfter nat

record IO =
  readFails :: "string \<Rightarrow> bool"
  writeOutcome :: "string \<Rightarrow> write_outcome"
  nonceFor :: "string \<Rightarrow> bytes option"

definition WriteFile :: "IO \<Rightarrow> FileSystem \<Rightarrow> string \<Rightarrow> bytes \<Rightarrow> bool \<times> FileSystem" where
  "WriteFile io fs path data =
     (case writeOutcome io path of
        WriteOk \<Rightarrow> (True, fs(path \<mapsto> data))
      | OpenFails \<Rightarrow> (False, fs)
      | WriteStopsAfter n \<Rightarrow> (False, fs(path \<mapsto> take n data)))"

definition ReadFile :: "IO \<Rightarrow> FileSystem \<Rightarrow> string \<Rightarrow> bytes option" where
  "ReadFile io fs path = (if readFails io path then None else fs path)"

definition Remove :: "FileSystem \<Rightarrow> string \<Rightarrow> FileSystem" where
  "Remove fs path = fs(path := None)"

definition encryptFile ::
  "Crypto \<Rightarrow> IO \<Rightarrow> FileSystem \<Rightarrow> string \<Rightarrow> string \<Rightarrow> bytes \<Rightarrow> crypto_error option \<times> FileSystem" where
  "encryptFile cr io fs srcPath dstPath key =
     (case ReadFile io fs srcPath of
        None \<Rightarrow> (Some ReadFailed, fs)
      | Some plaintext \<Rightarrow>
          if \<not> aesKeySizeOK key then (Some (KeySizeError (length key)), fs)
          else (case nonceFor io srcPath of
                  None \<Rightarrow> (Some NonceFailed, fs)
                | Some nonce \<Rightarrow>
                    (let ciphertext = nonce @ gcmSeal cr key nonce plaintext;
                         (ok, fs1) = WriteFile io fs dstPath ciphertext
                     in if ok then (None, fs1) else (Some WriteFailed, fs1))))"

definition decryptFile ::
  "Crypto \<Rightarrow> IO \<Rightarrow> FileSystem \<Rightarrow> string \<Rightarrow> string \<Rightarrow> bytes \<Rightarrow> crypto_error option \<times> FileSystem" where
  "decryptFile cr io fs srcPath dstPath key =
     (case ReadFile io fs srcPath of
        None \<Rightarrow> (Some ReadFailed, fs)
      | Some ciphertext \<Rightarrow>
          if \<not> aesKeySizeOK key then (Some (KeySizeError (length key)), fs)
          else if length ciphertext < NonceSize then (Some CiphertextTooShort, fs)
          else (case gcmOpen cr key (take NonceSize ciphertext) (drop NonceSize ciphertext) of
                  None \<Rightarrow> (Some DecryptionFailed, fs)
                | Some plaintext \<Rightarrow>
                    (let (ok, fs1) = WriteFile io fs dstPath plaintext
                     in if ok then (None, fs1) else (Some WriteFailed, fs1))))"

text \<open>The two files kept encrypted at rest, by their names in the configuration directory.\<close>

definition configFiles :: "string list" where
  "configFiles = [''rclone.conf'', ''ng-drive.db'']"

fun encryptEach ::
  "Crypto \<Rightarrow> IO \<Rightarrow> bytes \<Rightarrow> string list \<Rightarrow> FileSystem \<Rightarrow> crypto_error option \<times> FileSystem" where
  "encryptEach cr io key [] fs = (None, fs)"
| "encryptEach cr io key (srcPath # rest) fs =
     (if fs srcPath = None then encryptEach cr io key rest fs
      else (case encryptFile cr io fs srcPath (srcPath @ ''.enc'') key of
              (Some e, fs1) \<Rightarrow> (Some e, fs1)
            | (None, fs1) \<Rightarrow>
                encryptEach cr io key rest
                  (Remove (Remove (Remove fs1 srcPath) (srcPath @ ''-wal'')) (srcPath @ ''-shm''))))"

definition encryptConfigFiles ::
  "Crypto \<Rightarrow> IO \<Rightarrow> FileSystem \<Rightarrow> bytes \<Rightarrow> crypto_error option \<times> FileSystem" where
  "encryptConfigFiles cr io fs key = encryptEach cr io key configFiles fs"

fun decryptEach ::
  "Crypto \<Rightarrow> IO \<Rightarrow> bytes \<Rightarrow> string list \<Rightarrow> FileSystem \<Rightarrow> crypto_error option \<times> FileSystem" where
  "decryptEach cr io key [] fs = (None, fs)"
| "decryptEach cr io key (basePath # rest) fs =
     (if fs (basePath @ ''.enc'') = None then decryptEach cr io key rest fs
      else (case decryptFile cr io fs (basePath @ ''.enc'') basePath key of
              (Some e, fs1) \<Rightarrow> (Some e, fs1)
            | (None, fs1) \<Rightarrow>
                decryptEach cr io key rest (Remove fs1 (basePath @ ''.enc''))))"

definition decryptConfigFiles ::
  "Crypto \<Rightarrow> IO \<Rightarrow> FileSystem \<Rightarrow> bytes \<Rightarrow> crypto_error option \<times> FileSystem" where
  "decryptConfigFiles cr io fs key = decryptEach cr io key configFiles fs"

section \<open>The vault: state and operations\<close>

text \<open>
  The text of \<^verbatim>\<open>lockout_until\<close>: empty, or a text that \<^verbatim>\<open>time.Parse\<close> reads as an
  RFC 3339 instant (\<open>Some\<close>) or rejects (\<open>None\<close>).
\<close>

datatype time_text = EmptyText | Text "time option"

record AuthData =
  Enabled :: bool
  PasswordHash :: string
  FailedAttempts :: int
  LockoutUntil :: time_text

datatype auth_event = AuthLocked | AuthUnlocked

text \<open>
  What \<^verbatim>\<open>auth.json\<close> holds: the text that \<^verbatim>\<open>json.MarshalIndent\<close> makes of a value of
  \<^verbatim>\<open>authData\<close> (of nil, the text \<^verbatim>\<open>null\<close>), or the beginning of such a text, left by a
  write that stopped early, which \<^verbatim>\<open>json.Unmarshal\<close> does not read.
\<close>

datatype auth_text = JsonOf "AuthData option" | CutShort

text \<open>
  The service with what it acts on: the fields \<^verbatim>\<open>unlocked\<close>, \<^verbatim>\<open>encKey\<close> (nil, or the
  key) and \<^verbatim>\<open>authData\<close> (nil, or the data), the contents of \<^verbatim>\<open>auth.json\<close> (\<open>None\<close>
  when there is no such file), the configuration directory, whether the shared database
  is open, and the events emitted.
\<close>

record AuthService =
  unlocked :: bool
  encKey :: "bytes option"
  authData :: "AuthData option"
  authFile :: "auth_text option"
  disk :: FileSystem
  dbOpen :: bool
  emitted :: "auth_event list"

definition maxAttemptsBeforeDelay :: int where
  "maxAttemptsBeforeDelay = 3"

definition maxAttemptsBeforeLock :: int where
  "maxAttemptsBeforeLock = 10"

definition lockoutDuration :: int where
  "lockoutDuration = 5 * 60 * second"

text \<open>
  \<^verbatim>\<open>saveAuthData\<close> writes the data in memory to \<^verbatim>\<open>auth.json\<close> with \<^verbatim>\<open>os.WriteFile\<close>,
  which opens the file truncating it, writes, and closes. The save succeeds; or it fails
  before the file is opened (the directory cannot be made, the file cannot be opened) and
  the file is as it was; or the write stops early and the file holds the beginning of the
  text; or all of the text is written and the write or the close still reports an error.
\<close>

datatype save_outcome = SaveOk | SaveOpenFails | SaveStopsEarly | SaveCloseFails

definition saveAuthData :: "save_outcome \<Rightarrow> AuthService \<Rightarrow> bool \<times> AuthService" where
  "saveAuthData outcome a =
     (case outcome of
        SaveOk \<Rightarrow> (True, a\<lparr>authFile := Some (JsonOf (authData a))\<rparr>)
      | SaveOpenFails \<Rightarrow> (False, a)
      | SaveStopsEarly \<Rightarrow> (False, a\<lparr>authFile := Some CutShort\<rparr>)
      | SaveCloseFails \<Rightarrow> (False, a\<lparr>authFile := Some (JsonOf (authData a))\<rparr>))"

definition emitAuthEvent :: "auth_event \<Rightarrow> AuthService \<Rightarrow> AuthService" where
  "emitAuthEvent ev a = a\<lparr>emitted := emitted a @ [ev]\<rparr>"

text \<open>
  \<^verbatim>\<open>int(math.Ceil(time.Until(lockoutTime).Seconds()))\<close> for a lockout that has not expired.
\<close>

definition remainingSecs :: "time \<Rightarrow> time \<Rightarrow> int" where
  "remainingSecs now lockoutTime = - ((now - lockoutTime) div second)"

text \<open>
  The server-side delay of \<^verbatim>\<open>Unlock\<close>, in seconds, for a value of the failed-attempts
  counter: \<^verbatim>\<open>int(math.Pow(2, float64(FailedAttempts - maxAttemptsBeforeDelay)))\<close> when the
  counter is at least 3 and below 10, no delay otherwise.
\<close>

definition unlockDelay :: "int \<Rightarrow> int" where
  "unlockDelay failedAttempts =
     (if failedAttempts \<ge> maxAttemptsBeforeDelay \<and> failedAttempts < maxAttemptsBeforeLock
      then 2 ^ nat (failedAttempts - maxAttemptsBeforeDelay)
      else 0)"

text \<open>
  The lockout check of \<^verbatim>\<open>Unlock\<close>: the instant at which the lockout ends, when the
  text is not empty, parses, and the instant is still ahead.
\<close>

definition lockedOut :: "time \<Rightarrow> time_text \<Rightarrow> time option" where
  "lockedOut now until =
     (case until of
        EmptyText \<Rightarrow> None
      | Text None \<Rightarrow> None
      | Text (Some lockoutTime) \<Rightarrow> if now < lockoutTime then Some lockoutTime else None)"

datatype auth_error =
  AuthNotEnabled | AccountLocked int | IncorrectPassword | SaltError | DecryptFilesFailed
| InitFailed | MustBeUnlocked | IncorrectCurrentPassword | NewPasswordTooShort | SaltFailed
| ReencryptAndRecoveryFailed | ReencryptFailed | SaveAndRecoveryFailed | SaveFailed
| DecryptAfterChangeFailed | DatabaseInitFailed

text \<open>
  What \<^verbatim>\<open>Unlock\<close> meets outside the service: the clock when it is called, how the
  write of \<^verbatim>\<open>auth.json\<close> ends, the file operations of its decryption and of the
  re-encryption after a failed start, and how \<^verbatim>\<open>initializeApp\<close> ends (it succeeds, or fails at
  \<^verbatim>\<open>InitDatabase\<close>, or fails at \<^verbatim>\<open>CompleteInitialization\<close> with the database open). The
  model runs one call at a time: no other goroutine changes the service during the sleep.
\<close>

datatype init_outcome = InitOk | InitDatabaseFails | CompleteInitializationFails

record UnlockEnv =
  u_now :: time
  u_save :: save_outcome
  u_decryptIO :: IO
  u_encryptIO :: IO
  u_init :: init_outcome

record UnlockResult =
  u_err :: "auth_error option"
  u_slept :: int
  u_service :: AuthService

definition Unlock :: "Crypto \<Rightarrow> UnlockEnv \<Rightarrow> string \<Rightarrow> AuthService \<Rightarrow> UnlockResult" where
  "Unlock cr env password a =
     (case authData a of
        None \<Rightarrow> \<lparr>u_err = Some AuthNotEnabled, u_slept = 0, u_service = a\<rparr>
      | Some ad \<Rightarrow>
          if \<not> Enabled ad then \<lparr>u_err = Some AuthNotEnabled, u_slept = 0, u_service = a\<rparr>
          else if unlocked a then \<lparr>u_err = None, u_slept = 0, u_service = a\<rparr>
          else (case lockedOut (u_now env) (LockoutUntil ad) of
            Some lockoutTime \<Rightarrow>
              \<lparr>u_err = Some (AccountLocked (remainingSecs (u_now env) lockoutTime)),
               u_slept = 0, u_service = a\<rparr>
          | None \<Rightarrow>
            (let ad1 = ad\<lparr>LockoutUntil := EmptyText\<rparr>;
                 delaySecs = unlockDelay (FailedAttempts ad1);
                 now1 = u_now env + delaySecs * second
             in if \<not> verifyPasswordHash cr password (PasswordHash ad1)
                then
                  (let ad2 = ad1\<lparr>FailedAttempts := FailedAttempts ad1 + 1\<rparr>;
                       ad3 = (if FailedAttempts ad2 \<ge> maxAttemptsBeforeLock
                              then ad2\<lparr>LockoutUntil := Text (Some (rfc3339 (now1 + lockoutDuration))),
                                     FailedAttempts := 0\<rparr>
                              else ad2)
                   in \<lparr>u_err = Some IncorrectPassword, u_slept = delaySecs,
                       u_service = snd (saveAuthData (u_save env) (a\<lparr>authData := Some ad3\<rparr>))\<rparr>)
                else
                  (case extractSalt cr (PasswordHash ad1) of
                     None \<Rightarrow> \<lparr>u_err = Some SaltError, u_slept = delaySecs,
                               u_service = a\<lparr>authData := Some ad1\<rparr>\<rparr>
                   | Some salt \<Rightarrow>
                       (let key = deriveKey cr password salt;
                            (decErr, fs1) = decryptConfigFiles cr (u_decryptIO env) (disk a) key
                        in if decErr \<noteq> None
                           then \<lparr>u_err = Some DecryptFilesFailed, u_slept = delaySecs,
                                 u_service = a\<lparr>authData := Some ad1, disk := fs1\<rparr>\<rparr>
                           else
                             (let ad4 = ad1\<lparr>FailedAttempts := 0, LockoutUntil := EmptyText\<rparr>;
                                  a1 = snd (saveAuthData (u_save env)
                                         (a\<lparr>authData := Some ad4, disk := fs1\<rparr>))
                              in if u_init env \<noteq> InitOk
                                 then \<lparr>u_err = Some InitFailed, u_slept = delaySecs,
                                       u_service = a1\<lparr>
                                         dbOpen := (u_init env = CompleteInitializationFails),
                                         disk :=
                                           snd (encryptConfigFiles cr (u_encryptIO env) (disk a1) key)\<rparr>\<rparr>
                                 else \<lparr>u_err = None, u_slept = delaySecs,
                                       u_service = emitAuthEvent AuthUnlocked
                                         (a1\<lparr>encKey := Some key, unlocked := True,
                                             dbOpen := True\<rparr>)\<rparr>))))))"




section \<open>Properties of the vault\<close>

subsection \<open>Stand-ins for the libraries\<close>

text \<open>
  Concrete primitives to run the model on: a key derivation that tells two passwords
  apart, a base64 table for the three values the examples encode, a sealing that prefixes
  the key and an opening that checks the prefix; and an operating system on which every
  read and write succeeds.
\<close>

definition ex_crypto :: Crypto where
  "ex_crypto =
     \<lparr>argon2IDKey = (\<lambda>password salt.
        replicate 32 (if password = ''old-password'' then 1
                      else if password = ''new-password'' then 2 else 0)),
      b64Encode = (\<lambda>bs. if bs = replicate 32 1 then ''b2xk''
                         else if bs = replicate 32 2 then ''bmV3'' else ''c2FsdA''),
      b64Decode = (\<lambda>s. if s = ''b2xk'' then Some (replicate 32 1)
                         else if s = ''bmV3'' then Some (replicate 32 2)
                         else if s = ''c2FsdA'' then Some [7] else None),
      gcmSeal = (\<lambda>key nonce plaintext. key @ plaintext),
      gcmOpen = (\<lambda>key nonce ciphertext.
        if take (length key) ciphertext = key then Some (drop (length key) ciphertext)
        else None)\<rparr>"

definition ex_io :: IO where
  "ex_io = \<lparr>readFails = (\<lambda>path. False), writeOutcome = (\<lambda>path. WriteOk),
     nonceFor = (\<lambda>path. Some (replicate 12 9))\<rparr>"

subsection \<open>Sealing and opening\<close>

text \<open>
  What \<^verbatim>\<open>EncryptData\<close> returns is the nonce followed by the sealed text, and
  \<^verbatim>\<open>DecryptData\<close> splits it at the same place: with a nonce of 12 bytes, the round trip
  is that of the library's sealing and opening under this key and nonce.
\<close>

lemma EncryptData_layout:
  "aesKeySizeOK key \<Longrightarrow>
   EncryptData cr (Some nonce) data key = Inr (nonce @ gcmSeal cr key nonce data)"
  by (simp add: EncryptData_def)

lemma DecryptData_EncryptData:
  assumes "EncryptData cr (Some nonce) data key = Inr sealed"
    and "length nonce = NonceSize"
    and "gcmOpen cr key nonce (gcmSeal cr key nonce data) = Some data"
  shows "DecryptData cr sealed key = Inr data"
proof -
  from assms(1) have k: "aesKeySizeOK key" and s: "sealed = nonce @ gcmSeal cr key nonce data"
    by (auto simp: EncryptData_def split: if_splits)
  from assms(2) have "take NonceSize sealed = nonce"
    "drop NonceSize sealed = gcmSeal cr key nonce data" "\<not> length sealed < NonceSize"
    unfolding s by simp_all
  with k assms(3) show ?thesis
    by (simp add: DecryptData_def)
qed

subsection \<open>Decryption of short inputs\<close>

text \<open>
  C10 (amended). For every key of an AES size (16, 24 or 32 bytes) and every input shorter
  than the 12-byte nonce, \<^verbatim>\<open>DecryptData\<close> returns the "ciphertext too short" error, and
  so does \<^verbatim>\<open>decryptFile\<close> on a readable file with such contents, leaving the directory
  as it was. For a key of any other size both return the key-size error of
  \<^verbatim>\<open>aes.NewCipher\<close>, which is checked first. The nonce is split off only after the length
  check: a value is returned only for an input of at least 12 bytes, opened under its
  first 12 bytes as nonce.
\<close>

theorem decrypt_short_input:
  "(length key \<in> {16, 24, 32} \<and> length ciphertext < 12 \<longrightarrow>
      DecryptData cr ciphertext key = Inl CiphertextTooShort) \<and>
   (length key \<in> {16, 24, 32} \<and> ReadFile io fs srcPath = Some ciphertext \<and>
    length ciphertext < 12 \<longrightarrow>
      decryptFile cr io fs srcPath dstPath key = (Some CiphertextTooShort, fs)) \<and>
   (length key \<notin> {16, 24, 32} \<longrightarrow>
      DecryptData cr ciphertext key = Inl (KeySizeError (length key)) \<and>
      (ReadFile io fs srcPath = Some ciphertext \<longrightarrow>
         decryptFile cr io fs srcPath dstPath key = (Some (KeySizeError (length key)), fs))) \<and>
   (DecryptData cr ciphertext key = Inr plaintext \<longrightarrow>
      12 \<le> length ciphertext \<and>
      gcmOpen cr key (take 12 ciphertext) (drop 12 ciphertext) = Some plaintext)"
  by (auto simp: DecryptData_def decryptFile_def aesKeySizeOK_def NonceSize_def
        split: option.splits if_splits)

text \<open>
  With an empty key, the empty input is answered with the key-size error, not with
  "ciphertext too short".
\<close>

theorem decrypt_short_input_counterexample:
  "length ([] :: bytes) < 12 \<and> DecryptData ex_crypto [] [] = Inl (KeySizeError 0) \<and>
   decryptFile ex_crypto ex_io [''rclone.conf.enc'' \<mapsto> []] ''rclone.conf.enc'' ''rclone.conf'' [] =
     (Some (KeySizeError 0), [''rclone.conf.enc'' \<mapsto> []])"
  by (simp add: DecryptData_def decryptFile_def ReadFile_def ex_io_def aesKeySizeOK_def)

theorem decrypt_short_input_witness:
  "length (replicate 32 0 :: bytes) \<in> {16, 24, 32} \<and> length ([1, 2, 3] :: bytes) < 12 \<and>
   DecryptData ex_crypto [1, 2, 3] (replicate 32 0) = Inl CiphertextTooShort \<and>
   ReadFile ex_io [''rclone.conf.enc'' \<mapsto> [1, 2, 3]] ''rclone.conf.enc'' = Some [1, 2, 3] \<and>
   decryptFile ex_crypto ex_io [''rclone.conf.enc'' \<mapsto> [1, 2, 3]] ''rclone.conf.enc''
       ''rclone.conf'' (replicate 32 0) =
     (Some CiphertextTooShort, [''rclone.conf.enc'' \<mapsto> [1, 2, 3]]) \<and>
   length ([5] :: bytes) \<notin> {16, 24, 32} \<and>
   DecryptData ex_crypto [1, 2, 3] [5] = Inl (KeySizeError 1) \<and>
   DecryptData ex_crypto (replicate 12 9 @ replicate 32 0 @ [4, 2]) (replicate 32 0) = Inr [4, 2] \<and>
   gcmOpen ex_crypto (replicate 32 0) (take 12 (replicate 12 9 @ replicate 32 0 @ [4, 2]))
     (drop 12 (replicate 12 9 @ replicate 32 0 @ [4, 2])) = Some [4, 2]"
proof -
  have r: "ReadFile ex_io [''rclone.conf.enc'' \<mapsto> [1, 2, 3]] ''rclone.conf.enc'' = Some [1, 2, 3]"
    by (simp add: ReadFile_def ex_io_def)
  have d: "DecryptData ex_crypto (replicate 12 9 @ replicate 32 0 @ [4, 2]) (replicate 32 0) = Inr [4, 2]"
    by (simp add: DecryptData_def aesKeySizeOK_def NonceSize_def ex_crypto_def)
  from decrypt_short_input [where key = "replicate 32 0" and ciphertext = "[1, 2, 3]"
      and cr = ex_crypto and io = ex_io and fs = "[''rclone.conf.enc'' \<mapsto> [1, 2, 3]]"
      and srcPath = "''rclone.conf.enc''" and dstPath = "''rclone.conf''"]
    decrypt_short_input [where key = "[5]" and ciphertext = "[1, 2, 3]" and cr = ex_crypto]
    decrypt_short_input [where key = "replicate 32 0"
      and ciphertext = "replicate 12 9 @ replicate 32 0 @ [4, 2]" and cr = ex_crypto
      and plaintext = "[4, 2]"]
    r d
  show ?thesis
    by simp
qed

subsection \<open>Rate limiting of unlock\<close>

lemma rfc3339_bounds: "rfc3339 t \<le> t \<and> t - second < rfc3339 t"
proof -
  have "0 < second" by (simp add: second_def)
  then have m: "t mod second < second" "0 \<le> t mod second"
    by simp_all
  have e: "t div second * second + t mod second = t"
    by (rule div_mult_mod_eq)
  show ?thesis
    unfolding rfc3339_def using m e by linarith
qed

lemma remainingSecs_bounds:
  "(remainingSecs now lockoutTime - 1) * second < lockoutTime - now \<and>
   lockoutTime - now \<le> remainingSecs now lockoutTime * second"
proof -
  have s: "0 < second" by (simp add: second_def)
  let ?d = "now - lockoutTime"
  have m: "?d mod second < second" "0 \<le> ?d mod second"
    using s by simp_all
  have "(?d div second) * second + ?d mod second = ?d"
    by (rule div_mult_mod_eq)
  then have e: "remainingSecs now lockoutTime * second = - ?d + ?d mod second"
    by (simp add: remainingSecs_def algebra_simps)
  have "(remainingSecs now lockoutTime - 1) * second = remainingSecs now lockoutTime * second - second"
    by (simp add: algebra_simps)
  with e m show ?thesis by simp
qed

lemma unlockDelay_values:
  "map unlockDelay [0, 1, 2] = [0, 0, 0]"
  "map unlockDelay [3, 4, 5, 6, 7, 8] = [1, 2, 4, 8, 16, 32]"
  "unlockDelay 9 = 64"
  by (simp_all add: unlockDelay_def maxAttemptsBeforeDelay_def maxAttemptsBeforeLock_def)

lemma unlockDelay_early: "f \<in> {0, 1, 2} \<Longrightarrow> unlockDelay f = 0"
  by (auto simp: unlockDelay_def maxAttemptsBeforeDelay_def)

lemma unlockDelay_late:
  "f \<in> {3..8} \<Longrightarrow> unlockDelay f = 2 ^ nat (f - 3) \<and> unlockDelay f \<in> {1, 2, 4, 8, 16, 32}"
proof -
  assume "f \<in> {3..8}"
  then have "f = 3 \<or> f = 4 \<or> f = 5 \<or> f = 6 \<or> f = 7 \<or> f = 8"
    by auto
  then show ?thesis
    by (auto simp: unlockDelay_def maxAttemptsBeforeDelay_def maxAttemptsBeforeLock_def)
qed

lemma lockedOut_Some:
  "lockedOut now until = Some lt \<longleftrightarrow> until = Text (Some lt) \<and> now < lt"
  by (auto simp: lockedOut_def split: time_text.splits option.splits)

lemma Unlock_slept:
  "authData a = Some ad \<Longrightarrow> Enabled ad \<Longrightarrow> \<not> unlocked a \<Longrightarrow>
   lockedOut (u_now env) (LockoutUntil ad) = None \<Longrightarrow>
   u_slept (Unlock cr env password a) = unlockDelay (FailedAttempts ad)"
  by (simp add: Unlock_def Let_def split: option.splits prod.splits)

lemma saveAuthData_keeps:
  "unlocked (snd (saveAuthData outcome a)) = unlocked a"
  "encKey (snd (saveAuthData outcome a)) = encKey a"
  "authData (snd (saveAuthData outcome a)) = authData a"
  "disk (snd (saveAuthData outcome a)) = disk a"
  "dbOpen (snd (saveAuthData outcome a)) = dbOpen a"
  "emitted (snd (saveAuthData outcome a)) = emitted a"
  by (simp_all add: saveAuthData_def split: save_outcome.splits)

lemma Unlock_wrong:
  assumes "authData a = Some ad" "Enabled ad" "\<not> unlocked a"
    "lockedOut (u_now env) (LockoutUntil ad) = None"
    "\<not> verifyPasswordHash cr password (PasswordHash ad)"
  shows "u_err (Unlock cr env password a) = Some IncorrectPassword"
    and "FailedAttempts ad < 9 \<Longrightarrow> authData (u_service (Unlock cr env password a)) =
      Some (ad\<lparr>LockoutUntil := EmptyText, FailedAttempts := FailedAttempts ad + 1\<rparr>)"
    and "FailedAttempts ad = 9 \<Longrightarrow> authData (u_service (Unlock cr env password a)) =
      Some (ad\<lparr>LockoutUntil := Text (Some (rfc3339
          (u_now env + u_slept (Unlock cr env password a) * second + 300 * second))),
        FailedAttempts := 0\<rparr>)"
  using assms
  by (simp_all add: Unlock_def Let_def saveAuthData_keeps maxAttemptsBeforeLock_def
        lockoutDuration_def)

lemma Unlock_ok:
  assumes "authData a = Some ad" "Enabled ad" "\<not> unlocked a"
    "u_err (Unlock cr env password a) = None"
  shows "unlocked (u_service (Unlock cr env password a)) \<and>
     (\<exists>ad'. authData (u_service (Unlock cr env password a)) = Some ad' \<and>
        FailedAttempts ad' = 0 \<and> LockoutUntil ad' = EmptyText)"
  using assms
  by (auto simp: Unlock_def Let_def saveAuthData_keeps emitAuthEvent_def
        split: option.splits prod.splits if_splits)

lemma Unlock_locked:
  assumes "authData a = Some ad" "Enabled ad" "\<not> unlocked a"
    "LockoutUntil ad = Text (Some lockoutTime)" "u_now env < lockoutTime"
  shows "Unlock cr env password a =
     \<lparr>u_err = Some (AccountLocked (remainingSecs (u_now env) lockoutTime)), u_slept = 0,
      u_service = a\<rparr>"
  using assms by (simp add: Unlock_def lockedOut_def)

text \<open>
  C4. The \<open>n\<close>-th consecutive wrong attempt is made with the failed-attempts counter at
  \<open>n - 1\<close>. On a locked vault outside a lockout, \<^verbatim>\<open>Unlock\<close> sleeps for the delay of the
  counter: nothing for attempts 1 to 3 (counter 0, 1, 2) and 1, 2, 4, 8, 16, 32 seconds
  for attempts 4 to 9 (two to the power of the counter minus 3, for counter 3 to 8). A
  wrong password below counter 9 increments the counter; at counter 9 (attempt 10) it
  sets the counter to 0 and the lockout to the whole second at or before five minutes
  after the failure. During a lockout every attempt fails with the remaining time, in
  seconds rounded up, and changes nothing. A successful unlock leaves the counter at 0
  and the lockout empty.
\<close>

theorem unlock_rate_limit:
  "map unlockDelay [0, 1, 2] = [0, 0, 0] \<and>
   map unlockDelay [3, 4, 5, 6, 7, 8] = [1, 2, 4, 8, 16, 32] \<and>
   (authData a = Some ad \<and> Enabled ad \<and> \<not> unlocked a \<longrightarrow>
     (lockedOut (u_now env) (LockoutUntil ad) = None \<longrightarrow>
        u_slept (Unlock cr env password a) = unlockDelay (FailedAttempts ad) \<and>
        (FailedAttempts ad \<in> {0, 1, 2} \<longrightarrow> u_slept (Unlock cr env password a) = 0) \<and>
        (FailedAttempts ad \<in> {3..8} \<longrightarrow>
           u_slept (Unlock cr env password a) = 2 ^ nat (FailedAttempts ad - 3) \<and>
           u_slept (Unlock cr env password a) \<in> {1, 2, 4, 8, 16, 32}) \<and>
        (\<not> verifyPasswordHash cr password (PasswordHash ad) \<longrightarrow>
           u_err (Unlock cr env password a) = Some IncorrectPassword \<and>
           (FailedAttempts ad < 9 \<longrightarrow>
              authData (u_service (Unlock cr env password a)) =
                Some (ad\<lparr>LockoutUntil := EmptyText, FailedAttempts := FailedAttempts ad + 1\<rparr>)) \<and>
           (FailedAttempts ad = 9 \<longrightarrow>
              authData (u_service (Unlock cr env password a)) =
                Some (ad\<lparr>LockoutUntil := Text (Some (rfc3339
                    (u_now env + u_slept (Unlock cr env password a) * second + 300 * second))),
                  FailedAttempts := 0\<rparr>) \<and>
              rfc3339 (u_now env + u_slept (Unlock cr env password a) * second + 300 * second)
                \<le> u_now env + u_slept (Unlock cr env password a) * second + 300 * second \<and>
              u_now env + u_slept (Unlock cr env password a) * second + 299 * second
                < rfc3339 (u_now env + u_slept (Unlock cr env password a) * second + 300 * second)))) \<and>
     (\<forall>lockoutTime. LockoutUntil ad = Text (Some lockoutTime) \<and> u_now env < lockoutTime \<longrightarrow>
        Unlock cr env password a =
          \<lparr>u_err = Some (AccountLocked (remainingSecs (u_now env) lockoutTime)), u_slept = 0,
           u_service = a\<rparr> \<and>
        (remainingSecs (u_now env) lockoutTime - 1) * second < lockoutTime - u_now env \<and>
        lockoutTime - u_now env \<le> remainingSecs (u_now env) lockoutTime * second) \<and>
     (u_err (Unlock cr env password a) = None \<longrightarrow>
        unlocked (u_service (Unlock cr env password a)) \<and>
        (\<exists>ad'. authData (u_service (Unlock cr env password a)) = Some ad' \<and>
           FailedAttempts ad' = 0 \<and> LockoutUntil ad' = EmptyText)))"
proof (intro conjI impI allI; (elim conjE)?)
  show "map unlockDelay [0, 1, 2] = [0, 0, 0]"
    by (rule unlockDelay_values)
  show "map unlockDelay [3, 4, 5, 6, 7, 8] = [1, 2, 4, 8, 16, 32]"
    by (rule unlockDelay_values)
next
  assume "authData a = Some ad" "Enabled ad" "\<not> unlocked a"
    "lockedOut (u_now env) (LockoutUntil ad) = None"
  then show "u_slept (Unlock cr env password a) = unlockDelay (FailedAttempts ad)"
    by (rule Unlock_slept)
next
  assume "authData a = Some ad" "Enabled ad" "\<not> unlocked a"
    "lockedOut (u_now env) (LockoutUntil ad) = None" "FailedAttempts ad \<in> {0, 1, 2}"
  then show "u_slept (Unlock cr env password a) = 0"
    by (simp add: Unlock_slept unlockDelay_early)
next
  assume h: "authData a = Some ad" "Enabled ad" "\<not> unlocked a"
    "lockedOut (u_now env) (LockoutUntil ad) = None" "FailedAttempts ad \<in> {3..8}"
  from h have s: "u_slept (Unlock cr env password a) = unlockDelay (FailedAttempts ad)"
    by (simp add: Unlock_slept)
  from h have l: "unlockDelay (FailedAttempts ad) = 2 ^ nat (FailedAttempts ad - 3) \<and>
      unlockDelay (FailedAttempts ad) \<in> {1, 2, 4, 8, 16, 32}"
    by (intro unlockDelay_late)
  show "u_slept (Unlock cr env password a) = 2 ^ nat (FailedAttempts ad - 3)"
    unfolding s using l by blast
  show "u_slept (Unlock cr env password a) \<in> {1, 2, 4, 8, 16, 32}"
    unfolding s using l by blast
next
  assume h: "authData a = Some ad" "Enabled ad" "\<not> unlocked a"
    "lockedOut (u_now env) (LockoutUntil ad) = None"
    "\<not> verifyPasswordHash cr password (PasswordHash ad)"
  from h show "u_err (Unlock cr env password a) = Some IncorrectPassword"
    by (rule Unlock_wrong)
  {
    assume "FailedAttempts ad < 9"
    with h show "authData (u_service (Unlock cr env password a)) =
        Some (ad\<lparr>LockoutUntil := EmptyText, FailedAttempts := FailedAttempts ad + 1\<rparr>)"
      by (rule Unlock_wrong)
  }
  {
    assume "FailedAttempts ad = 9"
    with h show "authData (u_service (Unlock cr env password a)) =
        Some (ad\<lparr>LockoutUntil := Text (Some (rfc3339
            (u_now env + u_slept (Unlock cr env password a) * second + 300 * second))),
          FailedAttempts := 0\<rparr>)"
      by (rule Unlock_wrong)
  }
  let ?t = "u_now env + u_slept (Unlock cr env password a) * second + 300 * second"
  show "rfc3339 ?t \<le> ?t"
    using rfc3339_bounds [of ?t] by simp
  have "?t - second = u_now env + u_slept (Unlock cr env password a) * second + 299 * second"
    by simp
  then show "u_now env + u_slept (Unlock cr env password a) * second + 299 * second < rfc3339 ?t"
    using rfc3339_bounds [of ?t] by simp
next
  fix lockoutTime
  assume h: "authData a = Some ad" "Enabled ad" "\<not> unlocked a"
    "LockoutUntil ad = Text (Some lockoutTime)" "u_now env < lockoutTime"
  from h show "Unlock cr env password a =
      \<lparr>u_err = Some (AccountLocked (remainingSecs (u_now env) lockoutTime)), u_slept = 0,
       u_service = a\<rparr>"
    by (rule Unlock_locked)
  show "(remainingSecs (u_now env) lockoutTime - 1) * second < lockoutTime - u_now env"
    using remainingSecs_bounds by blast
  show "lockoutTime - u_now env \<le> remainingSecs (u_now env) lockoutTime * second"
    using remainingSecs_bounds by blast
next
  assume h: "authData a = Some ad" "Enabled ad" "\<not> unlocked a"
    "u_err (Unlock cr env password a) = None"
  from Unlock_ok [OF h] show "unlocked (u_service (Unlock cr env password a))"
    by blast
  from Unlock_ok [OF h] show "\<exists>ad'. authData (u_service (Unlock cr env password a)) = Some ad' \<and>
           FailedAttempts ad' = 0 \<and> LockoutUntil ad' = EmptyText"
    by blast
qed

text \<open>A locked vault whose password is \<^verbatim>\<open>old-password\<close>, with one encrypted file.\<close>

definition ex_hash :: string where
  "ex_hash = ''argon2id$v=19$m=65536,t=3,p=4$c2FsdA$b2xk''"

definition ex_auth :: "int \<Rightarrow> time_text \<Rightarrow> AuthData" where
  "ex_auth failed until =
     \<lparr>Enabled = True, PasswordHash = ex_hash, FailedAttempts = failed, LockoutUntil = until\<rparr>"

definition ex_vault :: "int \<Rightarrow> time_text \<Rightarrow> AuthService" where
  "ex_vault failed until =
     \<lparr>unlocked = False, encKey = None, authData = Some (ex_auth failed until),
      authFile = Some (JsonOf (Some (ex_auth failed until))),
      disk = [''rclone.conf.enc'' \<mapsto> replicate 12 9 @ replicate 32 1 @ [4, 2]],
      dbOpen = False, emitted = [AuthLocked]\<rparr>"

definition ex_unlock_env :: "time \<Rightarrow> UnlockEnv" where
  "ex_unlock_env now =
     \<lparr>u_now = now, u_save = SaveOk, u_decryptIO = ex_io, u_encryptIO = ex_io, u_init = InitOk\<rparr>"

lemma ex_crypto_sel:
  "argon2IDKey ex_crypto password salt =
     replicate 32 (if password = ''old-password'' then 1
                   else if password = ''new-password'' then 2 else 0)"
  "b64Decode ex_crypto enc =
     (if enc = ''b2xk'' then Some (replicate 32 1)
      else if enc = ''bmV3'' then Some (replicate 32 2)
      else if enc = ''c2FsdA'' then Some [7] else None)"
  "b64Encode ex_crypto bs =
     (if bs = replicate 32 1 then ''b2xk''
      else if bs = replicate 32 2 then ''bmV3'' else ''c2FsdA'')"
  "gcmSeal ex_crypto key nonce plaintext = key @ plaintext"
  "gcmOpen ex_crypto key nonce ciphertext =
     (if take (length key) ciphertext = key then Some (drop (length key) ciphertext) else None)"
  by (simp_all add: ex_crypto_def)

lemma ex_io_sel:
  "ReadFile ex_io fs path = fs path"
  "WriteFile ex_io fs path data = (True, fs(path \<mapsto> data))"
  "nonceFor ex_io path = Some (replicate 12 9)"
  by (simp_all add: ReadFile_def WriteFile_def ex_io_def)

lemma ex_split: "splitOn CHR ''$'' ex_hash =
    [''argon2id'', ''v=19'', ''m=65536,t=3,p=4'', ''c2FsdA'', ''b2xk'']"
  by (simp add: ex_hash_def)

lemma ex_salt: "extractSalt ex_crypto ex_hash = Some [7]"
  by (simp add: extractSalt_def ex_split Let_def ex_crypto_sel)

lemma ex_verify:
  "verifyPasswordHash ex_crypto ''old-password'' ex_hash"
  "\<not> verifyPasswordHash ex_crypto ''guess'' ex_hash"
  by (simp_all add: verifyPasswordHash_def ex_salt ex_split Let_def ex_crypto_sel)

lemma ex_vault_sel:
  "authData (ex_vault failed until) = Some (ex_auth failed until)"
  "Enabled (ex_auth failed until)" "\<not> unlocked (ex_vault failed until)"
  "FailedAttempts (ex_auth failed until) = failed" "LockoutUntil (ex_auth failed until) = until"
  "PasswordHash (ex_auth failed until) = ex_hash" "u_now (ex_unlock_env now) = now"
  "disk (ex_vault failed until) = [''rclone.conf.enc'' \<mapsto> replicate 12 9 @ replicate 32 1 @ [4, 2]]"
  "u_decryptIO (ex_unlock_env now) = ex_io" "u_init (ex_unlock_env now) = InitOk"
  by (simp_all add: ex_vault_def ex_auth_def ex_unlock_env_def)

lemma ex_decrypt:
  "decryptConfigFiles ex_crypto ex_io
     [''rclone.conf.enc'' \<mapsto> replicate 12 9 @ replicate 32 1 @ [4, 2]] (replicate 32 1) =
   (None, [''rclone.conf'' \<mapsto> [4, 2]])"
proof -
  have "(([''rclone.conf.enc'' \<mapsto> replicate 12 9 @ replicate 32 1 @ [4, 2 :: 8 word]])
          (''rclone.conf'' \<mapsto> [4, 2])) (''rclone.conf.enc'' := None) =
        [''rclone.conf'' \<mapsto> [4, 2]]"
    by (auto simp: fun_eq_iff)
  then show ?thesis
    by (simp add: decryptConfigFiles_def configFiles_def decryptFile_def ex_io_sel ex_crypto_sel
          Remove_def aesKeySizeOK_def NonceSize_def)
qed

lemma ex_unlock_ok:
  "u_err (Unlock ex_crypto (ex_unlock_env now) ''old-password'' (ex_vault 4 EmptyText)) = None"
  using ex_verify(1)
  by (simp add: Unlock_def ex_vault_sel lockedOut_def Let_def ex_salt deriveKey_def
        ex_crypto_sel(1) ex_decrypt)

theorem unlock_rate_limit_witness:
  "u_slept (Unlock ex_crypto (ex_unlock_env 0) ''guess'' (ex_vault 2 EmptyText)) = 0 \<and>
   authData (u_service (Unlock ex_crypto (ex_unlock_env 0) ''guess'' (ex_vault 2 EmptyText))) =
     Some (ex_auth 3 EmptyText) \<and>
   u_slept (Unlock ex_crypto (ex_unlock_env 0) ''guess'' (ex_vault 5 EmptyText)) = 4 \<and>
   authData (u_service (Unlock ex_crypto (ex_unlock_env 0) ''guess'' (ex_vault 5 EmptyText))) =
     Some (ex_auth 6 EmptyText) \<and>
   u_err (Unlock ex_crypto (ex_unlock_env (10 * second + 5)) ''guess'' (ex_vault 9 EmptyText)) =
     Some IncorrectPassword \<and>
   u_slept (Unlock ex_crypto (ex_unlock_env (10 * second + 5)) ''guess'' (ex_vault 9 EmptyText)) = 64 \<and>
   authData (u_service (Unlock ex_crypto (ex_unlock_env (10 * second + 5)) ''guess''
       (ex_vault 9 EmptyText))) =
     Some (ex_auth 0 (Text (Some (374 * second)))) \<and>
   Unlock ex_crypto (ex_unlock_env (100 * second)) ''old-password''
       (ex_vault 0 (Text (Some (374 * second)))) =
     \<lparr>u_err = Some (AccountLocked 274), u_slept = 0,
      u_service = ex_vault 0 (Text (Some (374 * second)))\<rparr> \<and>
   u_err (Unlock ex_crypto (ex_unlock_env 0) ''old-password'' (ex_vault 4 EmptyText)) = None \<and>
   u_slept (Unlock ex_crypto (ex_unlock_env 0) ''old-password'' (ex_vault 4 EmptyText)) = 2 \<and>
   unlocked (u_service (Unlock ex_crypto (ex_unlock_env 0) ''old-password'' (ex_vault 4 EmptyText))) \<and>
   (\<exists>ad'. authData (u_service (Unlock ex_crypto (ex_unlock_env 0) ''old-password''
        (ex_vault 4 EmptyText))) = Some ad' \<and> FailedAttempts ad' = 0 \<and> LockoutUntil ad' = EmptyText)"
proof -
  note t = unlock_rate_limit [where cr = ex_crypto]
  have pre: "authData (ex_vault f u) = Some (ex_auth f u) \<and> Enabled (ex_auth f u) \<and>
      \<not> unlocked (ex_vault f u)" for f u
    by (simp add: ex_vault_sel)
  have free: "lockedOut (u_now (ex_unlock_env n)) (LockoutUntil (ex_auth f EmptyText)) = None" for n f
    by (simp add: ex_vault_sel lockedOut_def)
  have wrong: "\<not> verifyPasswordHash ex_crypto ''guess'' (PasswordHash (ex_auth f u))" for f u
    by (simp add: ex_vault_sel ex_verify)
  have upd: "(ex_auth f u)\<lparr>LockoutUntil := u', FailedAttempts := f'\<rparr> = ex_auth f' u'" for f u f' u'
    by (simp add: ex_auth_def)
  from t [where a = "ex_vault 2 EmptyText" and ad = "ex_auth 2 EmptyText"
      and env = "ex_unlock_env 0" and password = "''guess''"] pre free wrong
  have a: "u_slept (Unlock ex_crypto (ex_unlock_env 0) ''guess'' (ex_vault 2 EmptyText)) = 0"
    "authData (u_service (Unlock ex_crypto (ex_unlock_env 0) ''guess'' (ex_vault 2 EmptyText))) =
       Some (ex_auth 3 EmptyText)"
    by (simp_all add: ex_vault_sel upd)
  from t [where a = "ex_vault 5 EmptyText" and ad = "ex_auth 5 EmptyText"
      and env = "ex_unlock_env 0" and password = "''guess''"] pre free wrong
  have b: "u_slept (Unlock ex_crypto (ex_unlock_env 0) ''guess'' (ex_vault 5 EmptyText)) = 4"
    "authData (u_service (Unlock ex_crypto (ex_unlock_env 0) ''guess'' (ex_vault 5 EmptyText))) =
       Some (ex_auth 6 EmptyText)"
    by (simp_all add: ex_vault_sel upd)
  have r: "rfc3339 (10 * second + 5 + 64 * second + 300 * second) = 374 * second"
    by (simp add: rfc3339_def second_def)
  from t [where a = "ex_vault 9 EmptyText" and ad = "ex_auth 9 EmptyText"
      and env = "ex_unlock_env (10 * second + 5)" and password = "''guess''"] pre free wrong
  have c: "u_err (Unlock ex_crypto (ex_unlock_env (10 * second + 5)) ''guess'' (ex_vault 9 EmptyText)) =
       Some IncorrectPassword"
    "u_slept (Unlock ex_crypto (ex_unlock_env (10 * second + 5)) ''guess'' (ex_vault 9 EmptyText)) = 64"
    "authData (u_service (Unlock ex_crypto (ex_unlock_env (10 * second + 5)) ''guess''
       (ex_vault 9 EmptyText))) = Some (ex_auth 0 (Text (Some (374 * second))))"
    by (simp_all add: ex_vault_sel upd unlockDelay_values rfc3339_def second_def)
  have rem: "remainingSecs (100 * second) (374 * second) = 274"
    by (simp add: remainingSecs_def second_def)
  from t [where a = "ex_vault 0 (Text (Some (374 * second)))"
      and ad = "ex_auth 0 (Text (Some (374 * second)))"
      and env = "ex_unlock_env (100 * second)" and password = "''old-password''"] pre
  have d: "Unlock ex_crypto (ex_unlock_env (100 * second)) ''old-password''
       (ex_vault 0 (Text (Some (374 * second)))) =
     \<lparr>u_err = Some (AccountLocked 274), u_slept = 0,
      u_service = ex_vault 0 (Text (Some (374 * second)))\<rparr>"
    by (simp add: ex_vault_sel rem second_def)
  from t [where a = "ex_vault 4 EmptyText" and ad = "ex_auth 4 EmptyText"
      and env = "ex_unlock_env 0" and password = "''old-password''"] pre free ex_unlock_ok [of 0]
  have e: "u_slept (Unlock ex_crypto (ex_unlock_env 0) ''old-password'' (ex_vault 4 EmptyText)) = 2"
    "unlocked (u_service (Unlock ex_crypto (ex_unlock_env 0) ''old-password'' (ex_vault 4 EmptyText)))"
    "\<exists>ad'. authData (u_service (Unlock ex_crypto (ex_unlock_env 0) ''old-password''
        (ex_vault 4 EmptyText))) = Some ad' \<and> FailedAttempts ad' = 0 \<and> LockoutUntil ad' = EmptyText"
    by (simp_all add: ex_vault_sel)
  from a b c d e ex_unlock_ok [of 0] show ?thesis
    by simp
qed

subsection \<open>Changing the password\<close>



























end
